theory Spec2Isabelle
  imports Main "HOL-Library.Word"
begin

section \<open>Data model\<close>

text \<open>
  The command-line client \<^verbatim>\<open>golulo\<close> is written in Go.  Its own code lives in
  \<^verbatim>\<open>cmd/golulo/internal/client.go\<close> and \<^verbatim>\<open>cmd/golulo/cmd/*.go\<close>; everything it calls
  in the Go standard library, in the Solana SDK, in the RPC and HTTP transports and in the
  file system is outside the repository.  Those calls are the fields of the record
  \<open>env\<close> below: the functions of this theory take an \<open>env\<close> and are
  defined for every behaviour of the outside world.
\<close>

type_synonym bytes = "8 word list"

text \<open>\<^verbatim>\<open>solana.PublicKey\<close>, \<^verbatim>\<open>solana.PrivateKey\<close>, \<^verbatim>\<open>solana.Signature\<close> and
  \<^verbatim>\<open>solana.Hash\<close> are byte strings.\<close>

type_synonym PublicKey = bytes
type_synonym PrivateKey = bytes
type_synonym Signature = bytes
type_synonym Hash = bytes

text \<open>
  A \<^verbatim>\<open>float64\<close>, value by value: not-a-number, the two infinities, and the finite
  values \<open>(-1)^s * m * 2^e\<close> (sign bit \<open>s\<close>, so that \<open>-0\<close> is a value of its own).
  Every finite double has this form with \<open>m < 2^53\<close>; no arithmetic on doubles is
  performed by the program, they are only compared with zero and printed.
\<close>

datatype float64 = NaN | Inf bool | Finite bool nat int

text \<open>Go's \<^verbatim>\<open>x == 0\<close> on a \<^verbatim>\<open>float64\<close>: true for \<open>+0\<close> and \<open>-0\<close> only.\<close>

fun float64_eq_zero :: "float64 \<Rightarrow> bool" where
  "float64_eq_zero (Finite s m e) = (m = 0)"
| "float64_eq_zero NaN = False"
| "float64_eq_zero (Inf s) = False"

text \<open>The finite values.\<close>

fun is_finite :: "float64 \<Rightarrow> bool" where
  "is_finite (Finite s m e) = True"
| "is_finite x = False"

text \<open>Decimal rendering of a natural number (\<^verbatim>\<open>%d\<close>).\<close>

definition digit_char :: "nat \<Rightarrow> char" where
  "digit_char d = ''0123456789'' ! (d mod 10)"

fun show_nat :: "nat \<Rightarrow> string" where
  "show_nat n = (if n < 10 then [digit_char n] else show_nat (n div 10) @ [digit_char (n mod 10)])"

declare show_nat.simps [simp del]

text \<open>
  The integer nearest to \<open>m * 2^e\<close>, ties to the even one: what
  \<^verbatim>\<open>strconv.FormatFloat(x, 'f', 0, 64)\<close> keeps of a finite value.
\<close>

definition round_half_even :: "nat \<Rightarrow> int \<Rightarrow> nat" where
  "round_half_even m e =
     (if 0 \<le> e then m * 2 ^ nat e
      else let d = 2 ^ nat (- e); q = m div d; r = m mod d in
        if 2 * r < d then q
        else if d < 2 * r then q + 1
        else if even q then q else q + 1)"

text \<open>\<^verbatim>\<open>fmt.Sprintf("%.0f", x)\<close>.\<close>

fun Sprintf_f0 :: "float64 \<Rightarrow> string" where
  "Sprintf_f0 NaN = ''NaN''"
| "Sprintf_f0 (Inf s) = (if s then ''-Inf'' else ''+Inf'')"
| "Sprintf_f0 (Finite s m e) = (if s then ''-'' else '''') @ show_nat (round_half_even m e)"

subsection \<open>Errors\<close>

text \<open>
  Go errors of this program are message chains built by \<^verbatim>\<open>fmt.Errorf\<close>.  \<open>Err k msg\<close>
  is an error with message \<open>msg\<close> and no cause: either one the program creates itself or
  one a library call returned.  \<open>Wrap msg e\<close> is \<^verbatim>\<open>fmt.Errorf("msg: %w", e)\<close>.  The
  kind \<open>k\<close> is the classification of the specification's error-handling section, attached
  where the root error arises: a missing setting is a \<open>ConfigurationError\<close>, a failed
  file read an \<open>IOError\<close>, a failed decoding a \<open>ParseError\<close>, a failed HTTP or RPC call
  and an unexpected HTTP status a \<open>NetworkError\<close>, a rejected flag combination a
  \<open>ValidationError\<close>; \<open>OtherError\<close> for the sites the specification does not classify.
\<close>

datatype kind =
  ConfigurationError | IOError | ParseError | NetworkError | ValidationError | OtherError

datatype error = Err kind string | Wrap string error

fun error_kind :: "error \<Rightarrow> kind" where
  "error_kind (Err k msg) = k"
| "error_kind (Wrap msg e) = error_kind e"

fun error_message :: "error \<Rightarrow> string" where
  "error_message (Err k msg) = msg"
| "error_message (Wrap msg e) = msg @ '': '' @ error_message e"

text \<open>What a Go call ends with: a panic, a returned error, or a returned value.\<close>

datatype 'a result = Panic | Fail error | Ok 'a

subsection \<open>Transactions\<close>

record MessageHeader =
  NumRequiredSignatures :: nat
  NumReadonlySignedAccounts :: nat
  NumReadonlyUnsignedAccounts :: nat

record Message =
  AccountKeys :: "PublicKey list"
  Header :: MessageHeader
  RecentBlockhash :: Hash
  Instructions :: "bytes list"

record Transaction =
  Signatures :: "Signature list"
  Message :: Message

datatype CommitmentType = CommitmentFinalized | CommitmentConfirmed | CommitmentProcessed

record TransactionOpts =
  SkipPreflight :: bool
  PreflightCommitment :: CommitmentType

subsection \<open>Requests to the lending API\<close>

record DepositRequest =
  Owner :: string
  MintAddress :: string
  DepositAmount :: string

record WithdrawRequest =
  WOwner :: string
  WMintAddress :: string
  WithdrawAmount :: string
  WithdrawAll :: bool

text \<open>The body of a request is the struct that \<^verbatim>\<open>json.Marshal\<close> encodes.\<close>

datatype body = NoBody | DepositBody DepositRequest | WithdrawBody WithdrawRequest

record Request =
  Method :: string
  URL :: string
  ReqHeader :: "(string \<times> string) list"
  ReqBody :: body

record Response =
  StatusCode :: nat
  RespBody :: bytes

text \<open>The records of the two answers: \<^verbatim>\<open>TransactionMeta\<close> and \<^verbatim>\<open>WithdrawTransactionMeta\<close>.\<close>

record TransactionMeta =
  Transaction :: string
  Protocol :: string
  TotalDeposit :: float64

record WithdrawTransactionMeta =
  WTransaction :: string
  WProtocol :: string
  TotalWithdraw :: string

text \<open>
  The totals of an account.  The settings that come with them are printed with the rest
  and are left out.
\<close>

record AccountData =
  TotalValue :: float64
  InterestEarned :: float64
  RealtimeAPY :: float64

subsection \<open>The outside world\<close>

text \<open>
  Every call that leaves the program is logged as an event, in the order the calls are
  made.  The decoding and signing calls are logged too, so that a trace tells which
  envelopes were touched.
\<close>

datatype event =
    EvReadFile string
  | EvHttpDo Request
  | EvGetLatestBlockhash CommitmentType
  | EvDecodeString string
  | EvTransactionFromDecoder bytes
  | EvSign Transaction
  | EvSendTransaction Transaction TransactionOpts
  | EvPrintln string

text \<open>
  The library and the world.  A call that can fail returns \<open>Inl reason\<close>.  The answers
  of the file system, of the HTTP server and of the RPC node may depend on everything
  that happened before: they take the trace so far.
  \<^item> \<open>os_ReadFile\<close>: \<^verbatim>\<open>os.ReadFile\<close>;
  \<^item> \<open>json_Unmarshal\<close>: \<^verbatim>\<open>json.Unmarshal\<close> into a \<^verbatim>\<open>[]uint8\<close>;
  \<^item> \<open>PrivateKey_PublicKey\<close>: \<^verbatim>\<open>PrivateKey.PublicKey()\<close>, which has no error result:
    \<open>None\<close> is a panic;
  \<^item> \<open>PublicKey_String\<close>: the base58 text of a key;
  \<^item> \<open>base64_DecodeString\<close>: \<^verbatim>\<open>base64.StdEncoding.DecodeString\<close>;
  \<^item> \<open>TransactionFromDecoder\<close>, \<open>NewTransaction\<close>: the SDK's constructors;
  \<^item> \<open>Transaction_Sign\<close>: the SDK's \<^verbatim>\<open>tx.Sign(getter)\<close>, which changes the
    transaction in place and returns an error or none;
  \<^item> \<open>rpc_GetLatestBlockhash\<close>, \<open>rpc_SendTransactionWithOpts\<close>: the RPC client.
    \<^verbatim>\<open>GetLatestBlockhash\<close> returns a pointer to a result whose \<^verbatim>\<open>Value\<close> is a pointer
    again: \<open>Inr None\<close> is the answer with a nil error and no value to read the blockhash
    from, \<open>Inr (Some h)\<close> the answer whose \<^verbatim>\<open>Value.Blockhash\<close> is \<open>h\<close>;
  \<^item> \<open>http_NewRequest\<close>: the error \<^verbatim>\<open>http.NewRequest\<close> returns for a method and a URL,
    if any; \<open>http_Do\<close>: \<^verbatim>\<open>http.Client.Do\<close>;
  \<^item> \<open>json_Decode_DepositResponse\<close>, \<open>json_Decode_WithdrawResponse\<close>,
    \<open>json_Decode_AccountResponse\<close>: decoding a response body into the struct of that name
    (the result is the content of its \<open>Data\<close> field);
  \<^item> \<open>json_MarshalIndent\<close>: pretty-printing the account data.
\<close>

record env =
  os_ReadFile :: "event list \<Rightarrow> string \<Rightarrow> string + bytes"
  json_Unmarshal :: "bytes \<Rightarrow> string + bytes"
  PrivateKey_PublicKey :: "PrivateKey \<Rightarrow> PublicKey option"
  PublicKey_String :: "PublicKey \<Rightarrow> string"
  base64_DecodeString :: "string \<Rightarrow> string + bytes"
  TransactionFromDecoder :: "bytes \<Rightarrow> string + Transaction"
  NewTransaction :: "bytes list \<Rightarrow> Hash \<Rightarrow> PublicKey \<Rightarrow> string + Transaction"
  Transaction_Sign ::
    "(PublicKey \<Rightarrow> PrivateKey option) \<Rightarrow> Transaction \<Rightarrow> Transaction \<times> string option"
  rpc_GetLatestBlockhash :: "event list \<Rightarrow> CommitmentType \<Rightarrow> string + Hash option"
  rpc_SendTransactionWithOpts ::
    "event list \<Rightarrow> Transaction \<Rightarrow> TransactionOpts \<Rightarrow> string + Signature"
  http_NewRequest :: "string \<Rightarrow> string \<Rightarrow> string option"
  http_Do :: "event list \<Rightarrow> Request \<Rightarrow> string + Response"
  json_Decode_DepositResponse :: "bytes \<Rightarrow> string + TransactionMeta list"
  json_Decode_WithdrawResponse :: "bytes \<Rightarrow> string + WithdrawTransactionMeta list"
  json_Decode_AccountResponse :: "bytes \<Rightarrow> string + AccountData"
  json_MarshalIndent :: "AccountData \<Rightarrow> string + string"

text \<open>The configuration as \<^verbatim>\<open>viper.GetString\<close> reads it.\<close>

record config =
  keypair :: string
  rpc_url :: string
  rpc_api_key :: string
  lulo_api_key :: string
  priority_fee :: string

section \<open>\<^verbatim>\<open>internal/client.go\<close>\<close>

record SolanaClient =
  RpcClient :: string
  PublicKey :: PublicKey
  PrivateKey :: PrivateKey

text \<open>\<^verbatim>\<open>NewSolanaClient\<close>; the result and the events of the call.\<close>

definition NewSolanaClient :: "env \<Rightarrow> config \<Rightarrow> event list \<Rightarrow> SolanaClient result \<times> event list" where
  "NewSolanaClient E cfg tr =
     (let keypairPath = keypair cfg in
      if keypairPath = '''' then (Fail (Err ConfigurationError ''keypair path not set in config''), tr)
      else
        let tr1 = tr @ [EvReadFile keypairPath] in
        case os_ReadFile E tr keypairPath of
          Inl e \<Rightarrow> (Fail (Wrap ''failed to read keypair file'' (Err IOError e)), tr1)
        | Inr keypairBytes \<Rightarrow>
            (case json_Unmarshal E keypairBytes of
               Inl e \<Rightarrow> (Fail (Wrap ''failed to parse keypair file'' (Err ParseError e)), tr1)
             | Inr secretKey \<Rightarrow>
                 (case PrivateKey_PublicKey E secretKey of
                    None \<Rightarrow> (Panic, tr1)
                  | Some publicKey \<Rightarrow>
                      let rpcURL = rpc_url cfg in
                      if rpcURL = '''' then (Fail (Err ConfigurationError ''RPC URL not set in config''), tr1)
                      else (Ok \<lparr>RpcClient = rpcURL @ ''?api-key='' @ rpc_api_key cfg,
                                PublicKey = publicKey,
                                PrivateKey = secretKey\<rparr>, tr1))))"

definition WalletPubKey :: "SolanaClient \<Rightarrow> PublicKey" where
  "WalletPubKey c = PublicKey c"

text \<open>
  \<^verbatim>\<open>CreateTransaction\<close>.  \<^verbatim>\<open>recent.Value.Blockhash\<close> is read with no test: an answer
  without a value is a nil dereference, a panic.
\<close>

definition CreateTransaction ::
  "env \<Rightarrow> SolanaClient \<Rightarrow> event list \<Rightarrow> bytes list \<Rightarrow> Transaction result \<times> event list" where
  "CreateTransaction E c tr instructions =
     (let tr1 = tr @ [EvGetLatestBlockhash CommitmentFinalized] in
      case rpc_GetLatestBlockhash E tr CommitmentFinalized of
        Inl e \<Rightarrow> (Fail (Wrap ''failed to get recent blockhash'' (Err NetworkError e)), tr1)
      | Inr None \<Rightarrow> (Panic, tr1)
      | Inr (Some recent) \<Rightarrow>
          (case NewTransaction E instructions recent (PublicKey c) of
             Inl e \<Rightarrow> (Fail (Wrap ''failed to create transaction'' (Err OtherError e)), tr1)
           | Inr tx \<Rightarrow> (Ok tx, tr1)))"

text \<open>The function literal that \<^verbatim>\<open>SignTransaction\<close> hands to \<^verbatim>\<open>tx.Sign\<close>.\<close>

definition signer_callback :: "SolanaClient \<Rightarrow> PublicKey \<Rightarrow> PrivateKey option" where
  "signer_callback c key = (if key = PublicKey c then Some (PrivateKey c) else None)"

text \<open>
  \<^verbatim>\<open>SignTransaction\<close> of \<^verbatim>\<open>client.go\<close>: the results of \<^verbatim>\<open>tx.Sign\<close> are dropped and the
  transaction, as \<^verbatim>\<open>tx.Sign\<close> left it, is returned with a nil error.  A returned pointer
  is an option: \<open>None\<close> is nil.
\<close>

definition SignTransaction ::
  "env \<Rightarrow> SolanaClient \<Rightarrow> Transaction \<Rightarrow> Transaction option \<times> error option" where
  "SignTransaction E c tx = (Some (fst (Transaction_Sign E (signer_callback c) tx)), None)"

text \<open>
  \<^verbatim>\<open>SignTransaction\<close> of the second copy of the client (\<^verbatim>\<open>src/unnamed/part_001\<close>): an
  error of \<^verbatim>\<open>tx.Sign\<close> is wrapped and returned with a nil transaction.
\<close>

definition SignTransaction_part_001 ::
  "env \<Rightarrow> SolanaClient \<Rightarrow> Transaction \<Rightarrow> Transaction option \<times> error option" where
  "SignTransaction_part_001 E c tx =
     (case Transaction_Sign E (signer_callback c) tx of
        (tx', Some e) \<Rightarrow> (None, Some (Wrap ''failed to sign transaction'' (Err OtherError e)))
      | (tx', None) \<Rightarrow> (Some tx', None))"

text \<open>\<^verbatim>\<open>SendTransaction\<close>.\<close>

definition SendTransaction ::
  "env \<Rightarrow> SolanaClient \<Rightarrow> event list \<Rightarrow> Transaction \<Rightarrow> Signature result \<times> event list" where
  "SendTransaction E c tr tx =
     (let opts = \<lparr>SkipPreflight = False, PreflightCommitment = CommitmentFinalized\<rparr>;
          tr1 = tr @ [EvSendTransaction tx opts] in
      case rpc_SendTransactionWithOpts E tr tx opts of
        Inl e \<Rightarrow> (Fail (Wrap ''failed to send transaction'' (Err NetworkError e)), tr1)
      | Inr sig \<Rightarrow> (Ok sig, tr1))"

text \<open>
  \<^verbatim>\<open>CreateSignAndSendTransaction\<close>.  The callers of \<^verbatim>\<open>SignTransaction\<close> test the
  error only; a nil transaction with a nil error would be dereferenced by the send.
\<close>

definition CreateSignAndSendTransaction ::
  "env \<Rightarrow> SolanaClient \<Rightarrow> event list \<Rightarrow> bytes list \<Rightarrow> Signature result \<times> event list" where
  "CreateSignAndSendTransaction E c tr instructions =
     (case CreateTransaction E c tr instructions of
        (Panic, tr1) \<Rightarrow> (Panic, tr1)
      | (Fail e, tr1) \<Rightarrow> (Fail e, tr1)
      | (Ok tx, tr1) \<Rightarrow>
          (case SignTransaction E c tx of
             (_, Some e) \<Rightarrow> (Fail e, tr1 @ [EvSign tx])
           | (None, None) \<Rightarrow> (Panic, tr1 @ [EvSign tx])
           | (Some signedTx, None) \<Rightarrow> SendTransaction E c (tr1 @ [EvSign tx]) signedTx))"

text \<open>
  The body of the loop of \<^verbatim>\<open>HandleB64Transactions\<close>, for one envelope and the answer
  to the blockhash fetch made before the loop.  The answer is first read here, by
  \<^verbatim>\<open>tx.Message.RecentBlockhash = blockhash.Value.Blockhash\<close>, after the envelope has been
  decoded and deserialized, and with no test: an answer without a value is a nil
  dereference, a panic.  The log calls are left out.
\<close>

definition handle_one ::
  "env \<Rightarrow> SolanaClient \<Rightarrow> Hash option \<Rightarrow> event list \<Rightarrow> string \<Rightarrow> unit result \<times> event list" where
  "handle_one E c blockhash tr b64_tx =
     (let tr1 = tr @ [EvDecodeString b64_tx] in
      case base64_DecodeString E b64_tx of
        Inl e \<Rightarrow> (Fail (Wrap ''failed to decode transaction'' (Err ParseError e)), tr1)
      | Inr txBytes \<Rightarrow>
          let tr2 = tr1 @ [EvTransactionFromDecoder txBytes] in
          (case TransactionFromDecoder E txBytes of
             Inl e \<Rightarrow> (Fail (Wrap ''failed to deserialize transaction'' (Err ParseError e)), tr2)
           | Inr tx0 \<Rightarrow>
               (case blockhash of
                  None \<Rightarrow> (Panic, tr2)
                | Some value_blockhash \<Rightarrow>
                    let tx = tx0\<lparr>Message := (Message tx0)\<lparr>RecentBlockhash := value_blockhash\<rparr>\<rparr>;
                        tr3 = tr2 @ [EvSign tx] in
                    (case SignTransaction E c tx of
                       (_, Some e) \<Rightarrow> (Fail (Wrap ''failed to sign transaction'' e), tr3)
                     | (None, None) \<Rightarrow> (Panic, tr3)
                     | (Some signedTx, None) \<Rightarrow>
                         (case SendTransaction E c tr3 signedTx of
                            (Panic, tr4) \<Rightarrow> (Panic, tr4)
                          | (Fail e, tr4) \<Rightarrow> (Fail (Wrap ''failed to send transaction'' e), tr4)
                          | (Ok sig, tr4) \<Rightarrow> (Ok (), tr4))))))"

text \<open>The loop: the envelopes in order, left at the first one that does not succeed.\<close>

fun handle_loop ::
  "env \<Rightarrow> SolanaClient \<Rightarrow> Hash option \<Rightarrow> event list \<Rightarrow> string list \<Rightarrow> unit result \<times> event list" where
  "handle_loop E c blockhash tr [] = (Ok (), tr)"
| "handle_loop E c blockhash tr (b64_tx # rest) =
     (case handle_one E c blockhash tr b64_tx of
        (Ok u, tr') \<Rightarrow> handle_loop E c blockhash tr' rest
      | (r, tr') \<Rightarrow> (r, tr'))"

text \<open>\<^verbatim>\<open>HandleB64Transactions\<close>.\<close>

definition HandleB64Transactions ::
  "env \<Rightarrow> SolanaClient \<Rightarrow> event list \<Rightarrow> string list \<Rightarrow> unit result \<times> event list" where
  "HandleB64Transactions E c tr b64_txs =
     (let tr1 = tr @ [EvGetLatestBlockhash CommitmentFinalized] in
      case rpc_GetLatestBlockhash E tr CommitmentFinalized of
        Inl e \<Rightarrow> (Fail (Wrap ''failed to get latest blockhash'' (Err NetworkError e)), tr1)
      | Inr blockhash \<Rightarrow> handle_loop E c blockhash tr1 b64_txs)"

section \<open>\<^verbatim>\<open>cmd/*.go\<close>: the commands\<close>

text \<open>
  \<^verbatim>\<open>req.Header.Set(key, value)\<close> stores the value under the canonical form of the key,
  \<^verbatim>\<open>textproto.CanonicalMIMEHeaderKey\<close>: a key made of header token characters gets its
  first letter and every letter after a hyphen in upper case and its other letters in
  lower case; any other key is left as it is.  The value replaces what the key had.
\<close>

definition lower_letters :: string where
  "lower_letters = ''abcdefghijklmnopqrstuvwxyz''"

definition upper_letters :: string where
  "upper_letters = ''ABCDEFGHIJKLMNOPQRSTUVWXYZ''"

definition validHeaderFieldByte :: "char \<Rightarrow> bool" where
  "validHeaderFieldByte ch =
     (ch \<in> set (lower_letters @ upper_letters @ ''0123456789'' @ ''!#$%&*+-.^_|~'' @
                 [CHR 0x27, CHR 0x60]))"

definition to_upper :: "char \<Rightarrow> char" where
  "to_upper ch = (case map_of (zip lower_letters upper_letters) ch of Some u \<Rightarrow> u | None \<Rightarrow> ch)"

definition to_lower :: "char \<Rightarrow> char" where
  "to_lower ch = (case map_of (zip upper_letters lower_letters) ch of Some l \<Rightarrow> l | None \<Rightarrow> ch)"

fun canonical :: "bool \<Rightarrow> string \<Rightarrow> string" where
  "canonical upper [] = []"
| "canonical upper (ch # cs) =
     (if upper then to_upper ch else to_lower ch) #
     canonical ((if upper then to_upper ch else to_lower ch) = CHR ''-'') cs"

definition CanonicalMIMEHeaderKey :: "string \<Rightarrow> string" where
  "CanonicalMIMEHeaderKey s = (if list_all validHeaderFieldByte s then canonical True s else s)"

definition Header_Set :: "Request \<Rightarrow> string \<Rightarrow> string \<Rightarrow> Request" where
  "Header_Set req k v =
     req\<lparr>ReqHeader := filter (\<lambda>p. fst p \<noteq> CanonicalMIMEHeaderKey k) (ReqHeader req) @
                        [(CanonicalMIMEHeaderKey k, v)]\<rparr>"

text \<open>The struct literals of \<^verbatim>\<open>deposit.go\<close> and \<^verbatim>\<open>withdraw.go\<close>.\<close>

definition mk_DepositRequest :: "env \<Rightarrow> SolanaClient \<Rightarrow> string \<Rightarrow> float64 \<Rightarrow> DepositRequest" where
  "mk_DepositRequest E client mintAddress amount =
     \<lparr>Owner = PublicKey_String E (WalletPubKey client),
      MintAddress = mintAddress,
      DepositAmount = Sprintf_f0 amount\<rparr>"

definition mk_WithdrawRequest ::
  "env \<Rightarrow> SolanaClient \<Rightarrow> string \<Rightarrow> float64 \<Rightarrow> bool \<Rightarrow> WithdrawRequest" where
  "mk_WithdrawRequest E client mintAddress amount withdrawAll =
     \<lparr>WOwner = PublicKey_String E (WalletPubKey client),
      WMintAddress = mintAddress,
      WithdrawAmount = Sprintf_f0 amount,
      WithdrawAll = withdrawAll\<rparr>"

text \<open>
  The two URLs, \<^verbatim>\<open>fmt.Sprintf("...?priorityFee=%s", viper.GetString("priority-fee"))\<close>.
\<close>

definition deposit_url :: "config \<Rightarrow> string" where
  "deposit_url cfg = ''https://api.flexlend.fi/generate/account/deposit?priorityFee='' @ priority_fee cfg"

definition withdraw_url :: "config \<Rightarrow> string" where
  "withdraw_url cfg = ''https://api.flexlend.fi/generate/account/withdraw?priorityFee='' @ priority_fee cfg"

text \<open>
  The POST request of \<^verbatim>\<open>deposit.go\<close> and \<^verbatim>\<open>withdraw.go\<close> with its four headers, set in
  the order of the source.  The key header is set to whatever the configuration holds.
\<close>

definition post_request :: "env \<Rightarrow> config \<Rightarrow> SolanaClient \<Rightarrow> string \<Rightarrow> body \<Rightarrow> Request" where
  "post_request E cfg client url request =
     (let req0 = \<lparr>Method = ''POST'', URL = url, ReqHeader = [], ReqBody = request\<rparr>;
          req1 = Header_Set req0 ''Accept'' ''application/json'';
          req2 = Header_Set req1 ''Content-Type'' ''application/json'';
          req3 = Header_Set req2 ''x-wallet-pubkey'' (PublicKey_String E (WalletPubKey client))
      in Header_Set req3 ''x-api-key'' (lulo_api_key cfg))"

text \<open>
  The decoding of the answer and the loop that collects the \<^verbatim>\<open>Transaction\<close> fields into
  \<^verbatim>\<open>b64_txs\<close>, for each of the two commands.
\<close>

definition deposit_envelopes :: "env \<Rightarrow> bytes \<Rightarrow> string + string list" where
  "deposit_envelopes E bs =
     (case json_Decode_DepositResponse E bs of
        Inl e \<Rightarrow> Inl e
      | Inr metas \<Rightarrow> Inr (map Transaction metas))"

definition withdraw_envelopes :: "env \<Rightarrow> bytes \<Rightarrow> string + string list" where
  "withdraw_envelopes E bs =
     (case json_Decode_WithdrawResponse E bs of
        Inl e \<Rightarrow> Inl e
      | Inr metas \<Rightarrow> Inr (map WTransaction metas))"

text \<open>
  What \<^verbatim>\<open>deposit.go\<close> and \<^verbatim>\<open>withdraw.go\<close> do alike, line for line, from
  \<^verbatim>\<open>http.NewRequest\<close> on: the request, the status test, the decoding of the answer
  (\<open>envelopes\<close>, one of the two functions above) and the hand-over of the envelopes to
  \<^verbatim>\<open>HandleB64Transactions\<close>.  (\<^verbatim>\<open>json.Marshal\<close> of a struct of strings and booleans does
  not fail.)
\<close>

definition post_and_handle ::
  "env \<Rightarrow> config \<Rightarrow> SolanaClient \<Rightarrow> event list \<Rightarrow> string \<Rightarrow> body \<Rightarrow>
   (bytes \<Rightarrow> string + string list) \<Rightarrow> unit result \<times> event list" where
  "post_and_handle E cfg client tr url request envelopes =
     (case http_NewRequest E ''POST'' url of
        Some e \<Rightarrow> (Fail (Wrap ''failed to create request'' (Err OtherError e)), tr)
      | None \<Rightarrow>
          let req = post_request E cfg client url request;
              tr1 = tr @ [EvHttpDo req] in
          (case http_Do E tr req of
             Inl e \<Rightarrow> (Fail (Wrap ''failed to make request'' (Err NetworkError e)), tr1)
           | Inr resp \<Rightarrow>
               if StatusCode resp \<noteq> 200
               then (Fail (Err NetworkError
                       (''unexpected status code: '' @ show_nat (StatusCode resp))), tr1)
               else
                 (case envelopes (RespBody resp) of
                    Inl e \<Rightarrow> (Fail (Wrap ''failed to decode response'' (Err ParseError e)), tr1)
                  | Inr b64_txs \<Rightarrow>
                      (case HandleB64Transactions E client tr1 b64_txs of
                         (Fail e, tr2) \<Rightarrow> (Fail (Wrap ''failed to handle transactions'' e), tr2)
                       | (r, tr2) \<Rightarrow> (r, tr2)))))"

text \<open>\<^verbatim>\<open>depositCmd.RunE\<close>, on the package variables \<^verbatim>\<open>amount\<close> and \<^verbatim>\<open>mintAddress\<close>.\<close>

definition deposit_RunE ::
  "env \<Rightarrow> config \<Rightarrow> float64 \<Rightarrow> string \<Rightarrow> unit result \<times> event list" where
  "deposit_RunE E cfg amount mintAddress =
     (case NewSolanaClient E cfg [] of
        (Panic, tr) \<Rightarrow> (Panic, tr)
      | (Fail e, tr) \<Rightarrow> (Fail (Wrap ''failed to create client'' e), tr)
      | (Ok client, tr) \<Rightarrow>
          post_and_handle E cfg client tr (deposit_url cfg)
            (DepositBody (mk_DepositRequest E client mintAddress amount))
            (deposit_envelopes E))"

text \<open>\<^verbatim>\<open>withdrawCmd.RunE\<close>.\<close>

definition withdraw_RunE ::
  "env \<Rightarrow> config \<Rightarrow> float64 \<Rightarrow> string \<Rightarrow> bool \<Rightarrow> unit result \<times> event list" where
  "withdraw_RunE E cfg amount mintAddress withdrawAll =
     (case NewSolanaClient E cfg [] of
        (Panic, tr) \<Rightarrow> (Panic, tr)
      | (Fail e, tr) \<Rightarrow> (Fail (Wrap ''failed to create client'' e), tr)
      | (Ok client, tr) \<Rightarrow>
          post_and_handle E cfg client tr (withdraw_url cfg)
            (WithdrawBody (mk_WithdrawRequest E client mintAddress amount withdrawAll))
            (withdraw_envelopes E))"

text \<open>\<^verbatim>\<open>accountCmd.RunE\<close>.\<close>

definition account_RunE :: "env \<Rightarrow> config \<Rightarrow> unit result \<times> event list" where
  "account_RunE E cfg =
     (case NewSolanaClient E cfg [] of
        (Panic, tr) \<Rightarrow> (Panic, tr)
      | (Fail e, tr) \<Rightarrow> (Fail (Wrap ''failed to create client'' e), tr)
      | (Ok client, tr) \<Rightarrow>
          let url = ''https://api.flexlend.fi/account'' in
          (case http_NewRequest E ''GET'' url of
             Some e \<Rightarrow> (Fail (Wrap ''failed to create request'' (Err OtherError e)), tr)
           | None \<Rightarrow>
               let req0 = \<lparr>Method = ''GET'', URL = url, ReqHeader = [], ReqBody = NoBody\<rparr>;
                   req1 = Header_Set req0 ''Accept'' ''application/json'';
                   req2 = Header_Set req1 ''x-wallet-pubkey'' (PublicKey_String E (WalletPubKey client));
                   apiKey = lulo_api_key cfg in
               if apiKey = ''''
               then (Fail (Err ConfigurationError
                       ''FLEXLEND_API_KEY environment variable not set''), tr)
               else
                 let req = Header_Set req2 ''x-api-key'' apiKey;
                     tr1 = tr @ [EvHttpDo req] in
                 (case http_Do E tr req of
                    Inl e \<Rightarrow> (Fail (Wrap ''failed to make request'' (Err NetworkError e)), tr1)
                  | Inr resp \<Rightarrow>
                      if StatusCode resp \<noteq> 200
                      then (Fail (Err NetworkError
                              (''unexpected status code: '' @ show_nat (StatusCode resp))), tr1)
                      else
                        (case json_Decode_AccountResponse E (RespBody resp) of
                           Inl e \<Rightarrow> (Fail (Wrap ''failed to decode response'' (Err ParseError e)), tr1)
                         | Inr d \<Rightarrow>
                             (case json_MarshalIndent E d of
                                Inl e \<Rightarrow> (Fail (Wrap ''failed to format response'' (Err OtherError e)), tr1)
                              | Inr prettyJSON \<Rightarrow> (Ok (), tr1 @ [EvPrintln prettyJSON]))))))"

subsection \<open>Flags and validation\<close>

text \<open>
  The flags of a command line, each absent or given with a value.  An absent flag leaves
  its variable at the default registered in \<^verbatim>\<open>init\<close>: \<open>0\<close>, the empty string, \<open>false\<close>.
\<close>

record flags =
  flag_amount :: "float64 option"
  flag_mint :: "string option"
  flag_all :: "bool option"

definition amount_of :: "flags \<Rightarrow> float64" where
  "amount_of fl = (case flag_amount fl of None \<Rightarrow> Finite False 0 0 | Some a \<Rightarrow> a)"

definition mintAddress_of :: "flags \<Rightarrow> string" where
  "mintAddress_of fl = (case flag_mint fl of None \<Rightarrow> '''' | Some m \<Rightarrow> m)"

definition withdrawAll_of :: "flags \<Rightarrow> bool" where
  "withdrawAll_of fl = (case flag_all fl of None \<Rightarrow> False | Some b \<Rightarrow> b)"

text \<open>\<^verbatim>\<open>withdrawCmd.PreRunE\<close>.\<close>

definition withdraw_PreRunE :: "bool \<Rightarrow> float64 \<Rightarrow> error option" where
  "withdraw_PreRunE withdrawAll amount =
     (if \<not> withdrawAll \<and> float64_eq_zero amount
      then Some (Err ValidationError ''either --amount or --all flag must be specified'')
      else None)"

text \<open>
  The flags marked with \<^verbatim>\<open>MarkFlagRequired\<close> that a command line does not give, and the
  error the command framework makes of them.
\<close>

definition quoted :: "string \<Rightarrow> string" where
  "quoted s = [CHR 0x22] @ s @ [CHR 0x22]"

fun join_comma :: "string list \<Rightarrow> string" where
  "join_comma [] = ''''"
| "join_comma [s] = s"
| "join_comma (s # t # ss) = s @ '', '' @ join_comma (t # ss)"

definition required_flags_error :: "string list \<Rightarrow> error option" where
  "required_flags_error missing =
     (if missing = [] then None
      else Some (Err ValidationError
             (''required flag(s) '' @ join_comma (map quoted missing) @ '' not set'')))"

text \<open>
  One run of a command: the framework calls \<^verbatim>\<open>PreRunE\<close> if the command has one, then
  checks the required flags, then calls \<^verbatim>\<open>RunE\<close>; the first error ends the run.
\<close>

definition execute_withdraw :: "env \<Rightarrow> config \<Rightarrow> flags \<Rightarrow> unit result \<times> event list" where
  "execute_withdraw E cfg fl =
     (case withdraw_PreRunE (withdrawAll_of fl) (amount_of fl) of
        Some e \<Rightarrow> (Fail e, [])
      | None \<Rightarrow>
          (case required_flags_error (if flag_mint fl = None then [''mint''] else []) of
             Some e \<Rightarrow> (Fail e, [])
           | None \<Rightarrow> withdraw_RunE E cfg (amount_of fl) (mintAddress_of fl) (withdrawAll_of fl)))"

definition execute_deposit :: "env \<Rightarrow> config \<Rightarrow> flags \<Rightarrow> unit result \<times> event list" where
  "execute_deposit E cfg fl =
     (case required_flags_error
             ((if flag_amount fl = None then [''amount''] else []) @
              (if flag_mint fl = None then [''mint''] else [])) of
        Some e \<Rightarrow> (Fail e, [])
      | None \<Rightarrow> deposit_RunE E cfg (amount_of fl) (mintAddress_of fl))"

definition execute_account :: "env \<Rightarrow> config \<Rightarrow> unit result \<times> event list" where
  "execute_account E cfg = account_RunE E cfg"

section \<open>Signature slots\<close>

text \<open>
  The required signers of a transaction are the first \<open>NumRequiredSignatures\<close> account
  keys, and a signature is absent when it equals \<^verbatim>\<open>solana.Signature{}\<close>, 64 zero bytes:
  that is how the earlier deposit command (\<^verbatim>\<open>src/unnamed/part_002\<close>) lists the signers
  and counts the signatures that are set.  Slot \<open>i\<close> is the signature of required signer
  \<open>i\<close>; a slot past the end of the signature list is empty.
\<close>

definition requiredSigners :: "Transaction \<Rightarrow> PublicKey list" where
  "requiredSigners tx = take (NumRequiredSignatures (Header (Message tx))) (AccountKeys (Message tx))"

definition empty_Signature :: Signature where
  "empty_Signature = replicate 64 0"

definition slot :: "Transaction \<Rightarrow> nat \<Rightarrow> Signature" where
  "slot tx i = (if i < length (Signatures tx) then Signatures tx ! i else empty_Signature)"

section \<open>Properties of traces\<close>

fun is_fetch :: "event \<Rightarrow> bool" where
  "is_fetch (EvGetLatestBlockhash cm) = True"
| "is_fetch ev = False"

definition finalized_opts :: TransactionOpts where
  "finalized_opts = \<lparr>SkipPreflight = False, PreflightCommitment = CommitmentFinalized\<rparr>"

text \<open>
  The calls the loop body makes for one envelope \<open>b\<close>, said outright: the decoding; if
  that succeeds the deserialization; if that succeeds and the answer to the fetch holds
  the blockhash \<open>bh\<close>, the signing of the transaction whose blockhash is now \<open>bh\<close>, and
  the submission of what the signing returned.
\<close>

definition envelope_steps :: "env \<Rightarrow> SolanaClient \<Rightarrow> Hash option \<Rightarrow> string \<Rightarrow> event list" where
  "envelope_steps E c blockhash b =
     EvDecodeString b #
     (case base64_DecodeString E b of
        Inl e \<Rightarrow> []
      | Inr txBytes \<Rightarrow>
          EvTransactionFromDecoder txBytes #
          (case TransactionFromDecoder E txBytes of
             Inl e \<Rightarrow> []
           | Inr tx0 \<Rightarrow>
               (case blockhash of
                  None \<Rightarrow> []
                | Some bh \<Rightarrow>
                    [EvSign (tx0\<lparr>Message := (Message tx0)\<lparr>RecentBlockhash := bh\<rparr>\<rparr>),
                     EvSendTransaction
                       (fst (Transaction_Sign E (signer_callback c)
                          (tx0\<lparr>Message := (Message tx0)\<lparr>RecentBlockhash := bh\<rparr>\<rparr>)))
                       finalized_opts])))"

text \<open>What the claims about commitment levels ask of a single call.\<close>

fun finalized_call :: "event \<Rightarrow> bool" where
  "finalized_call (EvGetLatestBlockhash cm) = (cm = CommitmentFinalized)"
| "finalized_call (EvSendTransaction tx opts) =
     (\<not> SkipPreflight opts \<and> PreflightCommitment opts = CommitmentFinalized)"
| "finalized_call ev = True"

fun is_network :: "event \<Rightarrow> bool" where
  "is_network (EvHttpDo req) = True"
| "is_network (EvGetLatestBlockhash cm) = True"
| "is_network (EvSendTransaction tx opts) = True"
| "is_network ev = False"

fun touches_transaction :: "event \<Rightarrow> bool" where
  "touches_transaction (EvDecodeString b) = True"
| "touches_transaction (EvTransactionFromDecoder bs) = True"
| "touches_transaction (EvSign tx) = True"
| "touches_transaction (EvSendTransaction tx opts) = True"
| "touches_transaction ev = False"

text \<open>
  An integer written in decimal: an optional minus sign and at least one digit.
\<close>

definition is_digit :: "char \<Rightarrow> bool" where
  "is_digit ch = (ch \<in> set ''0123456789'')"

fun is_integer_string :: "string \<Rightarrow> bool" where
  "is_integer_string [] = False"
| "is_integer_string (ch # cs) =
     (if ch = CHR ''-'' then cs \<noteq> [] \<and> list_all is_digit cs else list_all is_digit (ch # cs))"

section \<open>A test double of the outside world\<close>

text \<open>
  A small world to run the program in: one keypair file holding a 64-byte key, a lending
  API that answers 200 with envelopes, a node that accepts every submission, and a
  signing routine that signs for all required signers or for none: when the getter has
  no key for one of them it reports the missing signer and leaves the transaction as it
  was; otherwise it writes a signature into every slot.  The theorems below hold for
  every \<open>env\<close>; this one serves to run the program on concrete inputs.
\<close>

definition mock_secret :: PrivateKey where
  "mock_secret = replicate 32 1 @ replicate 32 2"

definition mock_wallet :: PublicKey where
  "mock_wallet = replicate 32 2"

definition mock_cosigner :: PublicKey where
  "mock_cosigner = replicate 32 3"

fun fill_slots ::
  "(PublicKey \<Rightarrow> PrivateKey option) \<Rightarrow> PublicKey list \<Rightarrow> Signature list \<Rightarrow> Signature list" where
  "fill_slots g (k # ks) (s # sigs) =
     (case g k of Some p \<Rightarrow> p | None \<Rightarrow> s) # fill_slots g ks sigs"
| "fill_slots g ks sigs = sigs"

definition mock_Sign ::
  "(PublicKey \<Rightarrow> PrivateKey option) \<Rightarrow> Transaction \<Rightarrow> Transaction \<times> string option" where
  "mock_Sign g tx =
     (if list_ex (\<lambda>k. g k = None) (requiredSigners tx)
      then (tx, Some ''signer key not found'')
      else (tx\<lparr>Signatures := fill_slots g (requiredSigners tx) (Signatures tx)\<rparr>, None))"

definition mock_tx :: "bytes \<Rightarrow> Transaction" where
  "mock_tx payload =
     \<lparr>Signatures = [empty_Signature, empty_Signature],
      Message = \<lparr>AccountKeys = [mock_wallet, mock_cosigner, [9]],
                 Header = \<lparr>NumRequiredSignatures = 2,
                            NumReadonlySignedAccounts = 0,
                            NumReadonlyUnsignedAccounts = 1\<rparr>,
                 RecentBlockhash = [],
                 Instructions = [payload]\<rparr>\<rparr>"

definition mock_env :: env where
  "mock_env =
     \<lparr>os_ReadFile = (\<lambda>tr path. if path = ''id.json'' then Inr [0x5B] else Inl ''no such file''),
      json_Unmarshal = (\<lambda>bs. if bs = [0x5B] then Inr mock_secret else Inl ''invalid character''),
      PrivateKey_PublicKey = (\<lambda>k. if length k = 64 then Some (drop 32 k) else None),
      PublicKey_String = (\<lambda>k. ''wallet''),
      base64_DecodeString = (\<lambda>s. if s = ''!'' then Inl ''illegal base64 data'' else Inr [of_nat (length s)]),
      TransactionFromDecoder = (\<lambda>bs. if bs = [0] then Inl ''unexpected EOF'' else Inr (mock_tx bs)),
      NewTransaction = (\<lambda>ins bh payer. if ins = [] then Inl ''no instructions'' else Inr (mock_tx (hd ins))),
      Transaction_Sign = mock_Sign,
      rpc_GetLatestBlockhash = (\<lambda>tr cm. Inr (Some [0xAB])),
      rpc_SendTransactionWithOpts = (\<lambda>tr tx opts. Inr [0x51]),
      http_NewRequest = (\<lambda>method url. None),
      http_Do = (\<lambda>tr req. Inr \<lparr>StatusCode = 200, RespBody = [0x7B]\<rparr>),
      json_Decode_DepositResponse =
        (\<lambda>bs. Inr [\<lparr>Transaction = ''AQ'', Protocol = ''p1'', TotalDeposit = Finite False 1 0\<rparr>,
                   \<lparr>Transaction = ''AgM'', Protocol = ''p2'', TotalDeposit = Finite False 3 (- 1)\<rparr>]),
      json_Decode_WithdrawResponse =
        (\<lambda>bs. Inr [\<lparr>WTransaction = ''AQ'', WProtocol = ''p1'', TotalWithdraw = ''2''\<rparr>]),
      json_Decode_AccountResponse =
        (\<lambda>bs. Inr \<lparr>TotalValue = Finite False 5 (- 1),
                      InterestEarned = Finite False 0 0,
                      RealtimeAPY = Finite False 1 (- 4)\<rparr>),
      json_MarshalIndent = (\<lambda>d. Inr ''{}'')\<rparr>"

text \<open>A transaction whose only required signer is the wallet.\<close>

definition mock_tx_single :: Transaction where
  "mock_tx_single =
     \<lparr>Signatures = [empty_Signature],
      Message = \<lparr>AccountKeys = [mock_wallet, [9]],
                 Header = \<lparr>NumRequiredSignatures = 1,
                            NumReadonlySignedAccounts = 0,
                            NumReadonlyUnsignedAccounts = 1\<rparr>,
                 RecentBlockhash = [],
                 Instructions = [[1]]\<rparr>\<rparr>"

definition mock_flags :: flags where
  "mock_flags = \<lparr>flag_amount = Some (Finite False 5 (- 1)), flag_mint = Some ''M'', flag_all = None\<rparr>"

definition mock_config :: config where
  "mock_config =
     \<lparr>keypair = ''id.json'', rpc_url = ''https://rpc'', rpc_api_key = ''k'',
      lulo_api_key = ''secret'', priority_fee = ''5000''\<rparr>"

definition mock_client :: SolanaClient where
  "mock_client =
     \<lparr>RpcClient = ''https://rpc?api-key=k'', PublicKey = mock_wallet, PrivateKey = mock_secret\<rparr>"

text \<open>The envelope transaction with the blockhash of the test world written in.\<close>

definition mock_stamped :: "bytes \<Rightarrow> Transaction" where
  "mock_stamped payload =
     (mock_tx payload)\<lparr>Message := (Message (mock_tx payload))\<lparr>RecentBlockhash := [0xAB]\<rparr>\<rparr>"

fun is_send :: "event \<Rightarrow> bool" where
  "is_send (EvSendTransaction tx opts) = True"
| "is_send ev = False"

text \<open>The same world with a node that rejects every submission after the first.\<close>

definition mock_flaky_env :: env where
  "mock_flaky_env =
     mock_env\<lparr>rpc_SendTransactionWithOpts :=
       (\<lambda>tr tx opts. if list_ex is_send tr then Inl ''blockhash not found'' else Inr [0x51])\<rparr>"

section \<open>The batch of envelopes\<close>

lemmas mock_defs = mock_env_def mock_config_def mock_client_def mock_tx_def mock_Sign_def
  mock_secret_def mock_wallet_def mock_cosigner_def empty_Signature_def requiredSigners_def

lemmas run_defs = HandleB64Transactions_def handle_one_def SignTransaction_def SendTransaction_def
  signer_callback_def Let_def

text \<open>The four header names of the program in their canonical form.\<close>

lemma canonical_keys:
  "CanonicalMIMEHeaderKey ''Accept'' = ''Accept''"
  "CanonicalMIMEHeaderKey ''Content-Type'' = ''Content-Type''"
  "CanonicalMIMEHeaderKey ''x-wallet-pubkey'' = ''X-Wallet-Pubkey''"
  "CanonicalMIMEHeaderKey ''x-api-key'' = ''X-Api-Key''"
  by (simp_all add: CanonicalMIMEHeaderKey_def validHeaderFieldByte_def to_upper_def to_lower_def
      lower_letters_def upper_letters_def)

lemma handle_one_trace: "snd (handle_one E c bh tr b) = tr @ envelope_steps E c bh b"
  by (simp add: handle_one_def envelope_steps_def SignTransaction_def SendTransaction_def
      finalized_opts_def Let_def split: sum.splits prod.splits result.splits option.splits)

lemma envelope_steps_no_fetch: "filter is_fetch (envelope_steps E c bh b) = []"
  by (simp add: envelope_steps_def split: sum.splits option.splits)

lemma handle_one_Ok_submitted:
  "fst (handle_one E c bh tr b) = Ok u \<Longrightarrow>
   \<exists>tx. last (envelope_steps E c bh b) = EvSendTransaction tx finalized_opts"
  by (auto simp add: handle_one_def envelope_steps_def SignTransaction_def SendTransaction_def
      finalized_opts_def Let_def split: sum.splits prod.splits result.splits option.splits)








lemma handle_loop_shape:
  "\<exists>k\<le>length txs.
     snd (handle_loop E c bh tr txs) = tr @ concat (map (envelope_steps E c bh) (take k txs)) \<and>
     (fst (handle_loop E c bh tr txs) = Ok () \<longrightarrow> k = length txs) \<and>
     (fst (handle_loop E c bh tr txs) \<noteq> Ok () \<longrightarrow>
        0 < k \<and> handle_loop E c bh tr txs = handle_loop E c bh tr (take k txs) \<and>
        fst (handle_loop E c bh tr (take (k - 1) txs)) = Ok ()) \<and>
     (\<forall>j<(if fst (handle_loop E c bh tr txs) = Ok () then k else k - 1). \<exists>tx.
        last (envelope_steps E c bh (txs ! j)) = EvSendTransaction tx finalized_opts)"
proof (induction txs arbitrary: tr)
  case Nil
  then show ?case by simp
next
  case (Cons b rest)
  obtain r tr' where one: "handle_one E c bh tr b = (r, tr')"
    by (cases "handle_one E c bh tr b")
  have tr': "tr' = tr @ envelope_steps E c bh b"
    using handle_one_trace [of E c bh tr b] one by simp
  show ?case
  proof (cases "r = Ok ()")
    case True
    from Cons.IH [of tr'] obtain k where k: "k \<le> length rest"
      and shape: "snd (handle_loop E c bh tr' rest) = tr' @ concat (map (envelope_steps E c bh) (take k rest))"
      and ok: "fst (handle_loop E c bh tr' rest) = Ok () \<longrightarrow> k = length rest"
      and bad: "fst (handle_loop E c bh tr' rest) \<noteq> Ok () \<longrightarrow>
        0 < k \<and> handle_loop E c bh tr' rest = handle_loop E c bh tr' (take k rest) \<and>
        fst (handle_loop E c bh tr' (take (k - 1) rest)) = Ok ()"
      and four: "\<forall>j<(if fst (handle_loop E c bh tr' rest) = Ok () then k else k - 1). \<exists>tx.
        last (envelope_steps E c bh (rest ! j)) = EvSendTransaction tx finalized_opts"
      by blast
    have step: "\<And>ys. handle_loop E c bh tr (b # ys) = handle_loop E c bh tr' ys"
      using one True by simp
    have b4: "\<exists>tx. last (envelope_steps E c bh b) = EvSendTransaction tx finalized_opts"
      using handle_one_Ok_submitted [of E c bh tr b] one True by simp
    have "Suc k \<le> length (b # rest)" using k by simp
    moreover have "snd (handle_loop E c bh tr (b # rest)) =
        tr @ concat (map (envelope_steps E c bh) (take (Suc k) (b # rest)))"
      using shape tr' step by simp
    moreover have "fst (handle_loop E c bh tr (b # rest)) = Ok () \<longrightarrow> Suc k = length (b # rest)"
      using ok step by simp
    moreover have "fst (handle_loop E c bh tr (b # rest)) \<noteq> Ok () \<longrightarrow>
        0 < Suc k \<and> handle_loop E c bh tr (b # rest) = handle_loop E c bh tr (take (Suc k) (b # rest)) \<and>
        fst (handle_loop E c bh tr (take (Suc k - 1) (b # rest))) = Ok ()"
    proof
      assume "fst (handle_loop E c bh tr (b # rest)) \<noteq> Ok ()"
      then have nok: "fst (handle_loop E c bh tr' rest) \<noteq> Ok ()" using step by simp
      with bad have k0: "0 < k" and same: "handle_loop E c bh tr' rest = handle_loop E c bh tr' (take k rest)"
        and before: "fst (handle_loop E c bh tr' (take (k - 1) rest)) = Ok ()" by simp_all
      from k0 obtain k' where k': "k = Suc k'" by (cases k) simp_all
      show "0 < Suc k \<and> handle_loop E c bh tr (b # rest) = handle_loop E c bh tr (take (Suc k) (b # rest)) \<and>
        fst (handle_loop E c bh tr (take (Suc k - 1) (b # rest))) = Ok ()"
        using same before step k' by simp
    qed
    moreover have "\<forall>j<(if fst (handle_loop E c bh tr (b # rest)) = Ok () then Suc k else Suc k - 1).
        \<exists>tx. last (envelope_steps E c bh ((b # rest) ! j)) = EvSendTransaction tx finalized_opts"
    proof (intro allI impI)
      fix j assume j: "j < (if fst (handle_loop E c bh tr (b # rest)) = Ok () then Suc k else Suc k - 1)"
      show "\<exists>tx. last (envelope_steps E c bh ((b # rest) ! j)) = EvSendTransaction tx finalized_opts"
      proof (cases j)
        case 0
        then show ?thesis using b4 by simp
      next
        case (Suc j')
        then have "j' < (if fst (handle_loop E c bh tr' rest) = Ok () then k else k - 1)"
          using j step by (auto split: if_splits)
        then show ?thesis using four Suc by simp
      qed
    qed
    ultimately show ?thesis by blast
  next
    case False
    have res: "handle_loop E c bh tr (b # rest) = (r, tr')"
      using one False by (cases r) simp_all
    have "(1::nat) \<le> length (b # rest)" by simp
    moreover have "snd (handle_loop E c bh tr (b # rest)) =
        tr @ concat (map (envelope_steps E c bh) (take 1 (b # rest)))"
      using res tr' by simp
    moreover have "fst (handle_loop E c bh tr (b # rest)) \<noteq> Ok ()"
      using res False by simp
    moreover have "handle_loop E c bh tr (b # rest) = handle_loop E c bh tr (take 1 (b # rest))"
      using res one False by (cases r) simp_all
    moreover have "fst (handle_loop E c bh tr (take (1 - 1) (b # rest))) = Ok ()"
      by simp
    ultimately show ?thesis
      by (intro exI [of _ 1]) simp
  qed
qed


lemma HandleB64Transactions_fetch_failed:
  "rpc_GetLatestBlockhash E tr CommitmentFinalized = Inl e \<Longrightarrow>
   HandleB64Transactions E c tr txs =
     (Fail (Wrap ''failed to get latest blockhash'' (Err NetworkError e)),
      tr @ [EvGetLatestBlockhash CommitmentFinalized])"
  by (simp add: HandleB64Transactions_def)

lemma HandleB64Transactions_fetched:
  "rpc_GetLatestBlockhash E tr CommitmentFinalized = Inr bh \<Longrightarrow>
   HandleB64Transactions E c tr txs =
     handle_loop E c bh (tr @ [EvGetLatestBlockhash CommitmentFinalized]) txs"
  by (simp add: HandleB64Transactions_def)

lemma filter_fetch_steps:
  "filter is_fetch (concat (map (envelope_steps E c bh) xs)) = []"
  by (induction xs) (simp_all add: envelope_steps_no_fetch)

lemma HandleB64Transactions_trace_extends:
  "\<exists>rest. snd (HandleB64Transactions E c tr txs) =
      tr @ EvGetLatestBlockhash CommitmentFinalized # rest \<and> filter is_fetch rest = []"
proof (cases "rpc_GetLatestBlockhash E tr CommitmentFinalized")
  case (Inl e)
  then show ?thesis by (simp add: HandleB64Transactions_fetch_failed)
next
  case (Inr bh)
  from handle_loop_shape [of txs E c bh "tr @ [EvGetLatestBlockhash CommitmentFinalized]"]
  obtain k where "snd (handle_loop E c bh (tr @ [EvGetLatestBlockhash CommitmentFinalized]) txs) =
      (tr @ [EvGetLatestBlockhash CommitmentFinalized]) @
      concat (map (envelope_steps E c bh) (take k txs))"
    by blast
  then show ?thesis
    using Inr by (simp add: HandleB64Transactions_fetched filter_fetch_steps)
qed








section \<open>Signing\<close>

text \<open>
  Claim C9 says that the two versions of \<^verbatim>\<open>SignTransaction\<close> return the same for every
  transaction and keypair.  They do not: when the SDK's \<^verbatim>\<open>tx.Sign\<close> reports an error
  (here: a required signer the callback has no key for), \<^verbatim>\<open>client.go\<close> returns the
  transaction and a nil error, \<^verbatim>\<open>part_001\<close> a nil transaction and the wrapped error.
\<close>

theorem C9_counterexample_sign_error_dropped:
  "SignTransaction mock_env mock_client (mock_tx [1]) \<noteq>
   SignTransaction_part_001 mock_env mock_client (mock_tx [1])"
  by (simp add: SignTransaction_def SignTransaction_part_001_def signer_callback_def mock_defs)

text \<open>
  Claim C9, amended.  The two versions return the same whenever \<^verbatim>\<open>tx.Sign\<close> reports no
  error; when it reports the error \<open>e\<close>, the version of \<^verbatim>\<open>client.go\<close> returns the
  transaction as \<^verbatim>\<open>tx.Sign\<close> left it with a nil error, and the version of
  \<^verbatim>\<open>part_001\<close> returns a nil transaction with \<open>e\<close> wrapped.
\<close>

theorem C9_sign_same_unless_sdk_errors:
  "(snd (Transaction_Sign E (signer_callback c) tx) = None \<longrightarrow>
      SignTransaction_part_001 E c tx = SignTransaction E c tx) \<and>
   (\<forall>e. snd (Transaction_Sign E (signer_callback c) tx) = Some e \<longrightarrow>
      SignTransaction E c tx = (Some (fst (Transaction_Sign E (signer_callback c) tx)), None) \<and>
      SignTransaction_part_001 E c tx =
        (None, Some (Wrap ''failed to sign transaction'' (Err OtherError e))))"
  by (simp add: SignTransaction_def SignTransaction_part_001_def split: prod.splits option.splits)

text \<open>Both cases of C9 in the test world: a single signer, and a missing cosigner.\<close>

theorem C9_witness_both_cases:
  "snd (Transaction_Sign mock_env (signer_callback mock_client) mock_tx_single) = None \<and>
   SignTransaction_part_001 mock_env mock_client mock_tx_single =
     SignTransaction mock_env mock_client mock_tx_single \<and>
   snd (Transaction_Sign mock_env (signer_callback mock_client) (mock_tx [1])) =
     Some ''signer key not found'' \<and>
   SignTransaction_part_001 mock_env mock_client (mock_tx [1]) =
     (None, Some (Wrap ''failed to sign transaction'' (Err OtherError ''signer key not found'')))"
proof -
  have a: "snd (Transaction_Sign mock_env (signer_callback mock_client) mock_tx_single) = None"
    by (simp add: signer_callback_def mock_tx_single_def mock_defs)
  have b: "snd (Transaction_Sign mock_env (signer_callback mock_client) (mock_tx [1])) =
     Some ''signer key not found''"
    by (simp add: signer_callback_def mock_defs)
  show ?thesis
    using a b C9_sign_same_unless_sdk_errors [of mock_env mock_client mock_tx_single]
      C9_sign_same_unless_sdk_errors [of mock_env mock_client "mock_tx [1]"]
    by simp
qed

text \<open>
  What the code itself does about signing, for every SDK: the callback hands out the
  private key for the client's own public key and nil for every other key;
  \<^verbatim>\<open>SignTransaction\<close> returns the transaction as \<^verbatim>\<open>tx.Sign\<close> left it, with a nil error
  whatever \<^verbatim>\<open>tx.Sign\<close> reported; and an envelope that decodes and deserializes is
  submitted as \<^verbatim>\<open>SignTransaction\<close> returned it, with no test of its signatures.
\<close>

lemma signer_callback_own_key_only:
  "signer_callback c (PublicKey c) = Some (PrivateKey c)"
  "key \<noteq> PublicKey c \<Longrightarrow> signer_callback c key = None"
  by (simp_all add: signer_callback_def)

lemma SignTransaction_never_fails:
  "SignTransaction E c tx = (Some (fst (Transaction_Sign E (signer_callback c) tx)), None)"
  by (simp add: SignTransaction_def)

lemma handle_one_submits:
  "base64_DecodeString E b = Inr bs \<Longrightarrow> TransactionFromDecoder E bs = Inr tx0 \<Longrightarrow>
   snd (handle_one E c (Some h) tr b) =
     tr @ [EvDecodeString b, EvTransactionFromDecoder bs,
           EvSign (tx0\<lparr>Message := (Message tx0)\<lparr>RecentBlockhash := h\<rparr>\<rparr>),
           EvSendTransaction
             (fst (Transaction_Sign E (signer_callback c)
                (tx0\<lparr>Message := (Message tx0)\<lparr>RecentBlockhash := h\<rparr>\<rparr>)))
             finalized_opts]"
  by (simp add: handle_one_trace envelope_steps_def)

text \<open>
  Claim C7 says that \<^verbatim>\<open>SignTransaction\<close> fills the slot of the client's own key and leaves
  the others empty, and the comment above the call in \<^verbatim>\<open>HandleB64Transactions\<close> says the
  same (a partially signed transaction, signed with the wallet key only).  The code does
  this much: the callback hands out the private key for the client's own public key and
  nil for every other key; \<^verbatim>\<open>SignTransaction\<close> calls \<^verbatim>\<open>tx.Sign\<close> with it and returns the
  transaction as \<^verbatim>\<open>tx.Sign\<close> left it, with a nil error whatever \<^verbatim>\<open>tx.Sign\<close> reported; and
  an envelope that decodes and deserializes is submitted as \<^verbatim>\<open>tx.Sign\<close> left it, with no
  test of its signatures.  But \<^verbatim>\<open>tx.Sign\<close> is not a partial signer: it reports an error
  when the callback returns nil for a required signer.  Whenever it refuses in that way
  and leaves the transaction as it was, \<^verbatim>\<open>SignTransaction\<close> returns the transaction
  untouched with a nil error: every slot that was empty is still empty, the client's own
  too, and the envelope is submitted like that.
\<close>

theorem C7_refused_signing_is_submitted_unsigned:
  "signer_callback c (PublicKey c) = Some (PrivateKey c) \<and>
   (\<forall>key. key \<noteq> PublicKey c \<longrightarrow> signer_callback c key = None) \<and>
   SignTransaction E c tx = (Some (fst (Transaction_Sign E (signer_callback c) tx)), None) \<and>
   (\<forall>b bs tx0 h tr.
      base64_DecodeString E b = Inr bs \<longrightarrow> TransactionFromDecoder E bs = Inr tx0 \<longrightarrow>
      tx = tx0\<lparr>Message := (Message tx0)\<lparr>RecentBlockhash := h\<rparr>\<rparr> \<longrightarrow>
      snd (handle_one E c (Some h) tr b) =
        tr @ [EvDecodeString b, EvTransactionFromDecoder bs, EvSign tx,
              EvSendTransaction (fst (Transaction_Sign E (signer_callback c) tx))
                finalized_opts]) \<and>
   (\<forall>e. Transaction_Sign E (signer_callback c) tx = (tx, Some e) \<longrightarrow>
      SignTransaction E c tx = (Some tx, None) \<and>
      (\<forall>i. slot tx i = empty_Signature \<longrightarrow>
         (\<exists>stx. fst (SignTransaction E c tx) = Some stx \<and> slot stx i = empty_Signature)) \<and>
      (\<forall>b bs tx0 h tr.
         base64_DecodeString E b = Inr bs \<longrightarrow> TransactionFromDecoder E bs = Inr tx0 \<longrightarrow>
         tx = tx0\<lparr>Message := (Message tx0)\<lparr>RecentBlockhash := h\<rparr>\<rparr> \<longrightarrow>
         snd (handle_one E c (Some h) tr b) =
           tr @ [EvDecodeString b, EvTransactionFromDecoder bs, EvSign tx,
                 EvSendTransaction tx finalized_opts]))"
proof (intro conjI allI impI)
  show "signer_callback c (PublicKey c) = Some (PrivateKey c)"
    by (rule signer_callback_own_key_only(1))
next
  fix key assume "key \<noteq> PublicKey c"
  then show "signer_callback c key = None"
    by (rule signer_callback_own_key_only(2))
next
  show "SignTransaction E c tx = (Some (fst (Transaction_Sign E (signer_callback c) tx)), None)"
    by (rule SignTransaction_never_fails)
next
  fix b bs tx0 h tr
  assume dec: "base64_DecodeString E b = Inr bs" and des: "TransactionFromDecoder E bs = Inr tx0"
    and tx: "tx = tx0\<lparr>Message := (Message tx0)\<lparr>RecentBlockhash := h\<rparr>\<rparr>"
  show "snd (handle_one E c (Some h) tr b) =
      tr @ [EvDecodeString b, EvTransactionFromDecoder bs, EvSign tx,
            EvSendTransaction (fst (Transaction_Sign E (signer_callback c) tx)) finalized_opts]"
    using handle_one_submits [OF dec des, of c h tr] tx by simp
next
  fix e assume "Transaction_Sign E (signer_callback c) tx = (tx, Some e)"
  then show "SignTransaction E c tx = (Some tx, None)"
    by (simp add: SignTransaction_def)
next
  fix e i
  assume refused: "Transaction_Sign E (signer_callback c) tx = (tx, Some e)"
    and empty: "slot tx i = empty_Signature"
  from refused have "fst (SignTransaction E c tx) = Some tx"
    by (simp add: SignTransaction_def)
  with empty show "\<exists>stx. fst (SignTransaction E c tx) = Some stx \<and> slot stx i = empty_Signature"
    by blast
next
  fix e b bs tx0 h tr
  assume refused: "Transaction_Sign E (signer_callback c) tx = (tx, Some e)"
    and dec: "base64_DecodeString E b = Inr bs" and des: "TransactionFromDecoder E bs = Inr tx0"
    and tx: "tx = tx0\<lparr>Message := (Message tx0)\<lparr>RecentBlockhash := h\<rparr>\<rparr>"
  from refused have "fst (Transaction_Sign E (signer_callback c) tx) = tx"
    by simp
  then show "snd (handle_one E c (Some h) tr b) =
      tr @ [EvDecodeString b, EvTransactionFromDecoder bs, EvSign tx,
            EvSendTransaction tx finalized_opts]"
    using handle_one_submits [OF dec des, of c h tr] tx by simp
qed

text \<open>
  The failing input of C7 in the test world: the one envelope \<open>AQ\<close>, with two required
  signers, the wallet and a cosigner.  The callback has the wallet's key and none for the
  cosigner, the signing routine refuses, \<^verbatim>\<open>SignTransaction\<close> reports no error, and the
  envelope is submitted with both slots empty, the wallet's too.  A transaction whose
  only required signer is the wallet gets its signature.
\<close>

theorem C7_witness_two_signers_nothing_signed:
  "requiredSigners (mock_stamped [2]) = [mock_wallet, mock_cosigner] \<and>
   PublicKey mock_client = mock_wallet \<and>
   signer_callback mock_client mock_wallet = Some mock_secret \<and>
   signer_callback mock_client mock_cosigner = None \<and>
   Transaction_Sign mock_env (signer_callback mock_client) (mock_stamped [2]) =
     (mock_stamped [2], Some ''signer key not found'') \<and>
   SignTransaction mock_env mock_client (mock_stamped [2]) = (Some (mock_stamped [2]), None) \<and>
   slot (mock_stamped [2]) 0 = empty_Signature \<and>
   slot (mock_stamped [2]) 1 = empty_Signature \<and>
   HandleB64Transactions mock_env mock_client [] [''AQ''] =
     (Ok (),
      [EvGetLatestBlockhash CommitmentFinalized,
       EvDecodeString ''AQ'', EvTransactionFromDecoder [2], EvSign (mock_stamped [2]),
       EvSendTransaction (mock_stamped [2]) finalized_opts]) \<and>
   SignTransaction mock_env mock_client mock_tx_single =
     (Some (mock_tx_single\<lparr>Signatures := [mock_secret]\<rparr>), None)"
proof -
  have wallet: "PublicKey mock_client = mock_wallet"
    by (simp add: mock_client_def)
  have secret: "PrivateKey mock_client = mock_secret"
    by (simp add: mock_client_def)
  have other: "mock_cosigner \<noteq> PublicKey mock_client"
    by (simp add: mock_defs)
  have signers: "requiredSigners (mock_stamped [2]) = [mock_wallet, mock_cosigner]"
    by (simp add: mock_stamped_def mock_defs)
  have refused: "Transaction_Sign mock_env (signer_callback mock_client) (mock_stamped [2]) =
     (mock_stamped [2], Some ''signer key not found'')"
    by (simp add: mock_stamped_def signer_callback_def mock_defs)
  have empty: "slot (mock_stamped [2]) 0 = empty_Signature"
    "slot (mock_stamped [2]) 1 = empty_Signature"
    by (simp_all add: slot_def mock_stamped_def mock_tx_def)
  have dec: "base64_DecodeString mock_env ''AQ'' = Inr [2]"
    "TransactionFromDecoder mock_env [2] = Inr (mock_tx [2])"
    by (simp_all add: mock_env_def)
  have st: "mock_stamped [2] =
      (mock_tx [2])\<lparr>Message := (Message (mock_tx [2]))\<lparr>RecentBlockhash := [0xAB]\<rparr>\<rparr>"
    by (simp add: mock_stamped_def)
  have fetch: "rpc_GetLatestBlockhash mock_env [] CommitmentFinalized = Inr (Some [0xAB])"
    by (simp add: mock_env_def)
  have ok: "fst (handle_one mock_env mock_client (Some [0xAB])
      [EvGetLatestBlockhash CommitmentFinalized] ''AQ'') = Ok ()"
    by (simp add: handle_one_def SignTransaction_def SendTransaction_def Let_def
        signer_callback_def mock_defs)
  have single: "fst (Transaction_Sign mock_env (signer_callback mock_client) mock_tx_single) =
      mock_tx_single\<lparr>Signatures := [mock_secret]\<rparr>"
    by (simp add: signer_callback_def mock_tx_single_def mock_defs)
  note inst = C7_refused_signing_is_submitted_unsigned [of mock_client mock_env "mock_stamped [2]"]
  note refusal = inst [THEN conjunct2, THEN conjunct2, THEN conjunct2, THEN conjunct2,
      rule_format, OF refused]
  from inst have own: "signer_callback mock_client mock_wallet = Some mock_secret"
    using wallet secret by simp
  from inst [THEN conjunct2, THEN conjunct1, rule_format, OF other]
  have cosigner: "signer_callback mock_client mock_cosigner = None" .
  from refusal have a: "SignTransaction mock_env mock_client (mock_stamped [2]) =
      (Some (mock_stamped [2]), None)"
    by (rule conjunct1)
  from refusal [THEN conjunct2, THEN conjunct2, rule_format, OF dec st,
      of "[EvGetLatestBlockhash CommitmentFinalized]"]
  have b: "snd (handle_one mock_env mock_client (Some [0xAB])
      [EvGetLatestBlockhash CommitmentFinalized] ''AQ'') =
      [EvGetLatestBlockhash CommitmentFinalized,
       EvDecodeString ''AQ'', EvTransactionFromDecoder [2], EvSign (mock_stamped [2]),
       EvSendTransaction (mock_stamped [2]) finalized_opts]"
    by simp
  from ok b have one: "handle_one mock_env mock_client (Some [0xAB])
      [EvGetLatestBlockhash CommitmentFinalized] ''AQ'' =
     (Ok (),
      [EvGetLatestBlockhash CommitmentFinalized,
       EvDecodeString ''AQ'', EvTransactionFromDecoder [2], EvSign (mock_stamped [2]),
       EvSendTransaction (mock_stamped [2]) finalized_opts])"
    by (simp add: prod_eq_iff)
  have run: "HandleB64Transactions mock_env mock_client [] [''AQ''] =
     (Ok (),
      [EvGetLatestBlockhash CommitmentFinalized,
       EvDecodeString ''AQ'', EvTransactionFromDecoder [2], EvSign (mock_stamped [2]),
       EvSendTransaction (mock_stamped [2]) finalized_opts])"
    using fetch one by (simp add: HandleB64Transactions_def)
  from C7_refused_signing_is_submitted_unsigned [of mock_client mock_env mock_tx_single,
      THEN conjunct2, THEN conjunct2, THEN conjunct1] single
  have sole: "SignTransaction mock_env mock_client mock_tx_single =
     (Some (mock_tx_single\<lparr>Signatures := [mock_secret]\<rparr>), None)"
    by simp
  from signers wallet own cosigner refused a empty run sole show ?thesis
    by simp
qed

section \<open>Commitment levels and preflight\<close>

lemma handle_loop_all:
  assumes steps: "\<And>b. list_all P (envelope_steps E c bh b)"
  shows "list_all P tr \<Longrightarrow> list_all P (snd (handle_loop E c bh tr txs))"
proof (induction txs arbitrary: tr)
  case Nil
  then show ?case by simp
next
  case (Cons b rest)
  obtain r tr' where one: "handle_one E c bh tr b = (r, tr')"
    by (cases "handle_one E c bh tr b")
  have "tr' = tr @ envelope_steps E c bh b"
    using handle_one_trace [of E c bh tr b] one by simp
  with Cons.prems steps have tr': "list_all P tr'" by simp
  show ?case
  proof (cases r)
    case (Ok u)
    then show ?thesis using one Cons.IH [OF tr'] by simp
  qed (use one tr' in simp_all)
qed

lemma HandleB64Transactions_all:
  assumes "list_all P tr" and "P (EvGetLatestBlockhash CommitmentFinalized)"
    and "\<And>bh b. list_all P (envelope_steps E c bh b)"
  shows "list_all P (snd (HandleB64Transactions E c tr txs))"
proof (cases "rpc_GetLatestBlockhash E tr CommitmentFinalized")
  case (Inl e)
  then show ?thesis using assms by (simp add: HandleB64Transactions_fetch_failed)
next
  case (Inr bh)
  have "list_all P (tr @ [EvGetLatestBlockhash CommitmentFinalized])"
    using assms by simp
  then show ?thesis
    using Inr assms(3) by (simp add: HandleB64Transactions_fetched handle_loop_all)
qed

lemma NewSolanaClient_trace:
  "snd (NewSolanaClient E cfg tr) = tr \<or> snd (NewSolanaClient E cfg tr) = tr @ [EvReadFile (keypair cfg)]"
  by (simp add: NewSolanaClient_def Let_def split: sum.splits option.splits)

lemma snd_wrap_failure:
  "snd (case p of (Fail e, t) \<Rightarrow> (Fail (f e), t) | (r, t) \<Rightarrow> (r, t)) = snd p"
  by (simp split: prod.splits result.splits)

lemma post_and_handle_all:
  assumes "list_all P tr" and "\<And>req. P (EvHttpDo req)"
    and "P (EvGetLatestBlockhash CommitmentFinalized)"
    and "\<And>bh b. list_all P (envelope_steps E c bh b)"
  shows "list_all P (snd (post_and_handle E cfg c tr url request envelopes))"
proof -
  have H: "\<And>txs. list_all P
      (snd (HandleB64Transactions E c (tr @ [EvHttpDo (post_request E cfg c url request)]) txs))"
    using assms by (intro HandleB64Transactions_all) simp_all
  show ?thesis
    using assms(1,2) H
    by (simp add: post_and_handle_def Let_def snd_wrap_failure
        split: option.splits sum.splits)
qed

lemma steps_finalized: "list_all finalized_call (envelope_steps E c bh b)"
  by (simp add: envelope_steps_def finalized_opts_def split: sum.splits option.splits)

lemma deposit_RunE_all:
  assumes "\<And>p. P (EvReadFile p)" and "\<And>req. P (EvHttpDo req)"
    and "P (EvGetLatestBlockhash CommitmentFinalized)"
    and "\<And>c bh b. list_all P (envelope_steps E c bh b)"
  shows "list_all P (snd (deposit_RunE E cfg amount mint))"
proof -
  have tr: "list_all P (snd (NewSolanaClient E cfg []))"
    using NewSolanaClient_trace [of E cfg "[]"] assms(1) by auto
  show ?thesis
  proof (cases "NewSolanaClient E cfg []")
    case (Pair r tr0)
    with tr have "list_all P tr0" by simp
    then show ?thesis
      using Pair assms by (cases r) (simp_all add: deposit_RunE_def post_and_handle_all)
  qed
qed

lemma withdraw_RunE_all:
  assumes "\<And>p. P (EvReadFile p)" and "\<And>req. P (EvHttpDo req)"
    and "P (EvGetLatestBlockhash CommitmentFinalized)"
    and "\<And>c bh b. list_all P (envelope_steps E c bh b)"
  shows "list_all P (snd (withdraw_RunE E cfg amount mint wall))"
proof -
  have tr: "list_all P (snd (NewSolanaClient E cfg []))"
    using NewSolanaClient_trace [of E cfg "[]"] assms(1) by auto
  show ?thesis
  proof (cases "NewSolanaClient E cfg []")
    case (Pair r tr0)
    with tr have "list_all P tr0" by simp
    then show ?thesis
      using Pair assms by (cases r) (simp_all add: withdraw_RunE_def post_and_handle_all)
  qed
qed

lemma execute_deposit_finalized: "list_all finalized_call (snd (execute_deposit E cfg fl))"
  by (simp add: execute_deposit_def deposit_RunE_all steps_finalized split: option.splits)

lemma execute_withdraw_finalized: "list_all finalized_call (snd (execute_withdraw E cfg fl))"
  by (simp add: execute_withdraw_def withdraw_RunE_all steps_finalized split: option.splits)

lemma CreateSignAndSend_finalized:
  "list_all finalized_call (snd (CreateSignAndSendTransaction E c [] ins))"
  by (simp add: CreateSignAndSendTransaction_def CreateTransaction_def SignTransaction_def
      SendTransaction_def Let_def split: sum.splits option.splits)

text \<open>
  Claim C6.  In every trace of \<^verbatim>\<open>HandleB64Transactions\<close>, of
  \<^verbatim>\<open>CreateSignAndSendTransaction\<close> and of the deposit and withdraw commands, each
  blockhash fetch asks for finalized commitment and each submission is made with
  \<^verbatim>\<open>SkipPreflight\<close> false and finalized preflight commitment.  \<^verbatim>\<open>SendTransaction\<close> makes
  exactly that call; it returns the signature the node answers with, and when the node
  rejects the transaction it returns a \<open>NetworkError\<close> that wraps the node's reason.
\<close>

theorem C6_finalized_commitment_and_preflight:
  "list_all finalized_call (snd (HandleB64Transactions E c [] txs)) \<and>
   list_all finalized_call (snd (CreateSignAndSendTransaction E c [] ins)) \<and>
   list_all finalized_call (snd (execute_deposit E cfg fl)) \<and>
   list_all finalized_call (snd (execute_withdraw E cfg fl)) \<and>
   snd (SendTransaction E c tr tx) =
     tr @ [EvSendTransaction tx
             \<lparr>SkipPreflight = False, PreflightCommitment = CommitmentFinalized\<rparr>] \<and>
   (\<forall>sig. rpc_SendTransactionWithOpts E tr tx
             \<lparr>SkipPreflight = False, PreflightCommitment = CommitmentFinalized\<rparr> = Inr sig \<longrightarrow>
      fst (SendTransaction E c tr tx) = Ok sig) \<and>
   (\<forall>reason. rpc_SendTransactionWithOpts E tr tx
             \<lparr>SkipPreflight = False, PreflightCommitment = CommitmentFinalized\<rparr> = Inl reason \<longrightarrow>
      fst (SendTransaction E c tr tx) =
        Fail (Wrap ''failed to send transaction'' (Err NetworkError reason)))"
proof (intro conjI)
  show "list_all finalized_call (snd (HandleB64Transactions E c [] txs))"
    by (intro HandleB64Transactions_all) (simp_all add: steps_finalized)
qed (simp_all add: CreateSignAndSend_finalized execute_deposit_finalized
      execute_withdraw_finalized SendTransaction_def Let_def split: sum.splits)


text \<open>A run of C6: a deposit in the test world, an accepted and a rejected submission.\<close>

theorem C6_witness_accepted_and_rejected_submission:
  "list_all finalized_call (snd (execute_deposit mock_env mock_config mock_flags)) \<and>
   list_ex is_send (snd (execute_deposit mock_env mock_config mock_flags)) \<and>
   rpc_SendTransactionWithOpts mock_flaky_env [] mock_tx_single
     \<lparr>SkipPreflight = False, PreflightCommitment = CommitmentFinalized\<rparr> = Inr [0x51] \<and>
   fst (SendTransaction mock_flaky_env mock_client [] mock_tx_single) = Ok [0x51] \<and>
   rpc_SendTransactionWithOpts mock_flaky_env [EvSendTransaction mock_tx_single finalized_opts]
     mock_tx_single
     \<lparr>SkipPreflight = False, PreflightCommitment = CommitmentFinalized\<rparr> =
     Inl ''blockhash not found'' \<and>
   fst (SendTransaction mock_flaky_env mock_client
          [EvSendTransaction mock_tx_single finalized_opts] mock_tx_single) =
     Fail (Wrap ''failed to send transaction'' (Err NetworkError ''blockhash not found''))"
proof -
  have ok: "rpc_SendTransactionWithOpts mock_flaky_env [] mock_tx_single
     \<lparr>SkipPreflight = False, PreflightCommitment = CommitmentFinalized\<rparr> = Inr [0x51]"
    by (simp add: mock_flaky_env_def mock_env_def)
  have no: "rpc_SendTransactionWithOpts mock_flaky_env
     [EvSendTransaction mock_tx_single finalized_opts] mock_tx_single
     \<lparr>SkipPreflight = False, PreflightCommitment = CommitmentFinalized\<rparr> =
     Inl ''blockhash not found''"
    by (simp add: mock_flaky_env_def mock_env_def)
  have sends: "list_ex is_send (snd (execute_deposit mock_env mock_config mock_flags))"
    by (simp add: execute_deposit_def required_flags_error_def deposit_RunE_def
        NewSolanaClient_def post_and_handle_def deposit_envelopes_def run_defs amount_of_def
        mintAddress_of_def mock_flags_def mock_defs)
  show ?thesis
    using ok no sends
      C6_finalized_commitment_and_preflight
        [of mock_env mock_client "[]" "[]" mock_config mock_flags "[]" mock_tx_single]
      C6_finalized_commitment_and_preflight
        [of mock_flaky_env mock_client "[]" "[]" mock_config mock_flags "[]" mock_tx_single]
      C6_finalized_commitment_and_preflight
        [of mock_flaky_env mock_client "[]" "[]" mock_config mock_flags
          "[EvSendTransaction mock_tx_single finalized_opts]" mock_tx_single]
    by simp
qed

section \<open>Withdraw validation\<close>

text \<open>
  Claim C4.  A withdraw command line with no \<^verbatim>\<open>--amount\<close> and with \<^verbatim>\<open>--all\<close> not set
  ends with the validation error of \<^verbatim>\<open>PreRunE\<close> and an empty trace: the keypair file has
  not been read, so no client exists, and no request has been made.
\<close>

theorem C4_withdraw_without_amount_or_all:
  "flag_amount fl = None \<Longrightarrow> flag_all fl \<noteq> Some True \<Longrightarrow>
   execute_withdraw E cfg fl =
     (Fail (Err ValidationError ''either --amount or --all flag must be specified''), [])"
  by (cases "flag_all fl")
     (simp_all add: execute_withdraw_def withdraw_PreRunE_def amount_of_def withdrawAll_of_def)

text \<open>A run of C4, beside a run that gives an amount and goes through.\<close>

theorem C4_witness_bare_withdraw:
  "flag_amount \<lparr>flag_amount = None, flag_mint = Some ''M'', flag_all = None\<rparr> = None \<and>
   flag_all \<lparr>flag_amount = None, flag_mint = Some ''M'', flag_all = None\<rparr> \<noteq> Some True \<and>
   execute_withdraw mock_env mock_config
       \<lparr>flag_amount = None, flag_mint = Some ''M'', flag_all = None\<rparr> =
     (Fail (Err ValidationError ''either --amount or --all flag must be specified''), []) \<and>
   fst (execute_withdraw mock_env mock_config
       \<lparr>flag_amount = Some (Finite False 5 (- 1)), flag_mint = Some ''M'', flag_all = None\<rparr>) = Ok ()"
proof -
  have ran: "fst (execute_withdraw mock_env mock_config
       \<lparr>flag_amount = Some (Finite False 5 (- 1)), flag_mint = Some ''M'', flag_all = None\<rparr>) = Ok ()"
    by (simp add: execute_withdraw_def withdraw_PreRunE_def required_flags_error_def
        withdraw_RunE_def NewSolanaClient_def post_and_handle_def withdraw_envelopes_def run_defs
        amount_of_def
        mintAddress_of_def withdrawAll_of_def mock_defs)
  show ?thesis
    using ran C4_withdraw_without_amount_or_all
      [of "\<lparr>flag_amount = None, flag_mint = Some ''M'', flag_all = None\<rparr>" mock_env mock_config]
    by simp
qed

text \<open>Once the request exists it is sent, and it carries the body it was built with.\<close>

lemma post_and_handle_sends:
  "http_NewRequest E ''POST'' url = None \<Longrightarrow>
   \<exists>rest. snd (post_and_handle E cfg c tr url request envelopes) =
      tr @ EvHttpDo (post_request E cfg c url request) # rest"
proof -
  assume new: "http_NewRequest E ''POST'' url = None"
  have H: "\<And>txs. \<exists>rest. snd (HandleB64Transactions E c
        (tr @ [EvHttpDo (post_request E cfg c url request)]) txs) =
      tr @ EvHttpDo (post_request E cfg c url request) # rest"
    using HandleB64Transactions_trace_extends
      [of E c "tr @ [EvHttpDo (post_request E cfg c url request)]"]
    by (metis append_Cons append_Nil append_assoc)
  show ?thesis
    using new H
    by (simp add: post_and_handle_def Let_def snd_wrap_failure split: sum.splits)
qed

lemma post_request_body: "ReqBody (post_request E cfg c url request) = request"
  by (simp add: post_request_def Header_Set_def)

lemma post_request_key:
  "map_of (ReqHeader (post_request E cfg c url request)) ''X-Api-Key'' = Some (lulo_api_key cfg)"
  by (simp add: post_request_def Header_Set_def canonical_keys)

text \<open>
  Claim C10.  \<^verbatim>\<open>PreRunE\<close> of withdraw passes exactly when \<^verbatim>\<open>--all\<close> is set or the amount
  differs from zero in Go's sense (\<open>NaN\<close> differs from zero).  A command line that gives
  \<^verbatim>\<open>--amount 0\<close> runs exactly as one that gives no amount, and without \<^verbatim>\<open>--all\<close> every
  zero amount is rejected with the validation error before anything else happens.  With
  \<^verbatim>\<open>--all\<close> and an amount together the validation passes, and the request that is sent
  carries both the amount string and \<open>withdrawAll = true\<close>.
\<close>

theorem C10_withdraw_validation_iff:
  "(withdraw_PreRunE withdrawAll amount = None) = (withdrawAll \<or> \<not> float64_eq_zero amount) \<and>
   \<not> float64_eq_zero NaN \<and>
   execute_withdraw E cfg (fl\<lparr>flag_amount := Some (Finite False 0 0)\<rparr>) =
     execute_withdraw E cfg (fl\<lparr>flag_amount := None\<rparr>) \<and>
   (flag_all fl \<noteq> Some True \<longrightarrow>
      (\<forall>s e. execute_withdraw E cfg (fl\<lparr>flag_amount := Some (Finite s 0 e)\<rparr>) =
        (Fail (Err ValidationError ''either --amount or --all flag must be specified''), []))) \<and>
   withdraw_PreRunE True amount = None \<and>
   (\<forall>client tr m.
      flag_all fl = Some True \<longrightarrow> flag_amount fl = Some amount \<longrightarrow> flag_mint fl = Some m \<longrightarrow>
      NewSolanaClient E cfg [] = (Ok client, tr) \<longrightarrow>
      http_NewRequest E ''POST'' (withdraw_url cfg) = None \<longrightarrow>
      (\<exists>req rest. snd (execute_withdraw E cfg fl) = tr @ EvHttpDo req # rest \<and>
         ReqBody req =
           WithdrawBody \<lparr>WOwner = PublicKey_String E (PublicKey client), WMintAddress = m,
                         WithdrawAmount = Sprintf_f0 amount, WithdrawAll = True\<rparr>))"
proof (intro conjI allI impI)
  show "(withdraw_PreRunE withdrawAll amount = None) = (withdrawAll \<or> \<not> float64_eq_zero amount)"
    by (simp add: withdraw_PreRunE_def)
next
  have same:
    "amount_of (fl\<lparr>flag_amount := Some (Finite False 0 0)\<rparr>) = amount_of (fl\<lparr>flag_amount := None\<rparr>)"
    "mintAddress_of (fl\<lparr>flag_amount := Some (Finite False 0 0)\<rparr>) = mintAddress_of (fl\<lparr>flag_amount := None\<rparr>)"
    "withdrawAll_of (fl\<lparr>flag_amount := Some (Finite False 0 0)\<rparr>) = withdrawAll_of (fl\<lparr>flag_amount := None\<rparr>)"
    "flag_mint (fl\<lparr>flag_amount := Some (Finite False 0 0)\<rparr>) = flag_mint (fl\<lparr>flag_amount := None\<rparr>)"
    by (simp_all add: amount_of_def withdrawAll_of_def mintAddress_of_def)
  show "execute_withdraw E cfg (fl\<lparr>flag_amount := Some (Finite False 0 0)\<rparr>) =
      execute_withdraw E cfg (fl\<lparr>flag_amount := None\<rparr>)"
    unfolding execute_withdraw_def same by (rule refl)
next
  fix s e assume "flag_all fl \<noteq> Some True"
  then show "execute_withdraw E cfg (fl\<lparr>flag_amount := Some (Finite s 0 e)\<rparr>) =
        (Fail (Err ValidationError ''either --amount or --all flag must be specified''), [])"
    by (cases "flag_all fl")
       (simp_all add: execute_withdraw_def withdraw_PreRunE_def amount_of_def withdrawAll_of_def)
next
  fix client tr m
  assume fl: "flag_all fl = Some True" "flag_amount fl = Some amount" "flag_mint fl = Some m"
    and cl: "NewSolanaClient E cfg [] = (Ok client, tr)"
    and new: "http_NewRequest E ''POST'' (withdraw_url cfg) = None"
  have run: "execute_withdraw E cfg fl =
      post_and_handle E cfg client tr (withdraw_url cfg)
        (WithdrawBody (mk_WithdrawRequest E client m amount True)) (withdraw_envelopes E)"
    using fl cl
    by (simp add: execute_withdraw_def withdraw_PreRunE_def required_flags_error_def
        amount_of_def withdrawAll_of_def mintAddress_of_def withdraw_RunE_def)
  from post_and_handle_sends [OF new, of cfg client tr
      "WithdrawBody (mk_WithdrawRequest E client m amount True)"]
  obtain rest where "snd (execute_withdraw E cfg fl) =
      tr @ EvHttpDo (post_request E cfg client (withdraw_url cfg)
        (WithdrawBody (mk_WithdrawRequest E client m amount True))) # rest"
    using run by auto
  then show "\<exists>req rest. snd (execute_withdraw E cfg fl) = tr @ EvHttpDo req # rest \<and>
         ReqBody req =
           WithdrawBody \<lparr>WOwner = PublicKey_String E (PublicKey client), WMintAddress = m,
                         WithdrawAmount = Sprintf_f0 amount, WithdrawAll = True\<rparr>"
    by (auto simp add: post_request_body mk_WithdrawRequest_def WalletPubKey_def)
qed (simp_all add: withdraw_PreRunE_def)


text \<open>Runs of C10: a zero amount without \<^verbatim>\<open>--all\<close>, and an amount with \<^verbatim>\<open>--all\<close>.\<close>

theorem C10_witness_zero_rejected_both_accepted:
  "withdraw_PreRunE True (Finite False 5 (- 1)) = None \<and>
   withdraw_PreRunE False (Finite False 5 (- 1)) = None \<and>
   withdraw_PreRunE False (Finite True 0 0) \<noteq> None \<and>
   execute_withdraw mock_env mock_config
       \<lparr>flag_amount = Some (Finite False 0 0), flag_mint = Some ''M'', flag_all = None\<rparr> =
     (Fail (Err ValidationError ''either --amount or --all flag must be specified''), []) \<and>
   NewSolanaClient mock_env mock_config [] = (Ok mock_client, [EvReadFile ''id.json'']) \<and>
   (\<exists>req rest.
      snd (execute_withdraw mock_env mock_config
             \<lparr>flag_amount = Some (Finite False 5 (- 1)), flag_mint = Some ''M'',
                flag_all = Some True\<rparr>) =
        [EvReadFile ''id.json''] @ EvHttpDo req # rest \<and>
      ReqBody req =
        WithdrawBody \<lparr>WOwner = ''wallet'', WMintAddress = ''M'',
                      WithdrawAmount = ''2'', WithdrawAll = True\<rparr>)"
proof -
  let ?zero = "\<lparr>flag_amount = Some (Finite False 0 0), flag_mint = Some ''M'', flag_all = None\<rparr>"
  let ?both = "\<lparr>flag_amount = Some (Finite False 5 (- 1)), flag_mint = Some ''M'',
                flag_all = Some True\<rparr>"
  have cl: "NewSolanaClient mock_env mock_config [] = (Ok mock_client, [EvReadFile ''id.json''])"
    by (simp add: NewSolanaClient_def mock_defs)
  have new: "http_NewRequest mock_env ''POST'' (withdraw_url mock_config) = None"
    by (simp add: mock_env_def)
  have rendered: "show_nat (round_half_even 5 (- 1)) = ''2''"
    by (simp add: round_half_even_def show_nat.simps digit_char_def)
  have own: "PublicKey_String mock_env (PublicKey mock_client) = ''wallet''"
    by (simp add: mock_env_def)
  have upd: "?zero\<lparr>flag_amount := Some (Finite False 0 0)\<rparr> = ?zero"
    by simp
  note zero = C10_withdraw_validation_iff [of _ _ mock_env mock_config ?zero]
  note both = C10_withdraw_validation_iff [of True "Finite False 5 (- 1)" mock_env mock_config ?both]
  from zero have rej: "execute_withdraw mock_env mock_config ?zero =
     (Fail (Err ValidationError ''either --amount or --all flag must be specified''), [])"
    using upd by (metis flags.select_convs(3) option.distinct(1))
  from both cl new have sent: "\<exists>req rest.
      snd (execute_withdraw mock_env mock_config ?both) =
        [EvReadFile ''id.json''] @ EvHttpDo req # rest \<and>
      ReqBody req =
        WithdrawBody \<lparr>WOwner = ''wallet'', WMintAddress = ''M'',
                      WithdrawAmount = ''2'', WithdrawAll = True\<rparr>"
    by (simp add: rendered own)
  show ?thesis
    using rej sent cl by (simp add: withdraw_PreRunE_def)
qed

section \<open>The status of the answer\<close>

lemma NewSolanaClient_Ok_trace:
  "NewSolanaClient E cfg tr0 = (Ok client, tr) \<Longrightarrow> tr = tr0 @ [EvReadFile (keypair cfg)]"
  by (auto simp add: NewSolanaClient_def Let_def split: if_splits sum.splits option.splits)

lemma post_and_handle_status:
  assumes "http_NewRequest E ''POST'' url = None"
    and "http_Do E tr (post_request E cfg c url request) = Inr resp"
  shows "(StatusCode resp \<noteq> 200 \<longrightarrow>
            post_and_handle E cfg c tr url request envelopes =
              (Fail (Err NetworkError (''unexpected status code: '' @ show_nat (StatusCode resp))),
               tr @ [EvHttpDo (post_request E cfg c url request)])) \<and>
         (StatusCode resp = 200 \<longrightarrow>
            (\<forall>k msg. fst (post_and_handle E cfg c tr url request envelopes) \<noteq> Fail (Err k msg)))"
  using assms
  by (auto simp add: post_and_handle_def Let_def split: sum.splits prod.splits result.splits)

text \<open>
  Claim C5, amended.  When the lending API answers a deposit or a withdraw request with
  any status other than 200, the command returns the \<open>NetworkError\<close> that carries the
  status, and its trace is the read of the keypair file and the request: no envelope is
  decoded, signed or submitted.  When the status is 200 the command never returns a
  bare \<open>NetworkError\<close>, so the status by itself causes no error.
\<close>

theorem C5_status_other_than_200_stops_the_command:
  assumes "NewSolanaClient E cfg [] = (Ok client, tr)"
    and "flag_amount fl = Some a" and "flag_mint fl = Some m"
  shows
    "(\<forall>resp. http_NewRequest E ''POST'' (deposit_url cfg) = None \<longrightarrow>
        http_Do E tr (post_request E cfg client (deposit_url cfg)
          (DepositBody (mk_DepositRequest E client m a))) = Inr resp \<longrightarrow>
        (StatusCode resp \<noteq> 200 \<longrightarrow>
           execute_deposit E cfg fl =
             (Fail (Err NetworkError (''unexpected status code: '' @ show_nat (StatusCode resp))),
              [EvReadFile (keypair cfg),
               EvHttpDo (post_request E cfg client (deposit_url cfg)
                 (DepositBody (mk_DepositRequest E client m a)))]) \<and>
           \<not> list_ex touches_transaction (snd (execute_deposit E cfg fl))) \<and>
        (StatusCode resp = 200 \<longrightarrow>
           (\<forall>msg. fst (execute_deposit E cfg fl) \<noteq> Fail (Err NetworkError msg)))) \<and>
     (\<forall>resp. withdraw_PreRunE (withdrawAll_of fl) a = None \<longrightarrow>
        http_NewRequest E ''POST'' (withdraw_url cfg) = None \<longrightarrow>
        http_Do E tr (post_request E cfg client (withdraw_url cfg)
          (WithdrawBody (mk_WithdrawRequest E client m a (withdrawAll_of fl)))) = Inr resp \<longrightarrow>
        (StatusCode resp \<noteq> 200 \<longrightarrow>
           execute_withdraw E cfg fl =
             (Fail (Err NetworkError (''unexpected status code: '' @ show_nat (StatusCode resp))),
              [EvReadFile (keypair cfg),
               EvHttpDo (post_request E cfg client (withdraw_url cfg)
                 (WithdrawBody (mk_WithdrawRequest E client m a (withdrawAll_of fl))))]) \<and>
           \<not> list_ex touches_transaction (snd (execute_withdraw E cfg fl))) \<and>
        (StatusCode resp = 200 \<longrightarrow>
           (\<forall>msg. fst (execute_withdraw E cfg fl) \<noteq> Fail (Err NetworkError msg))))"
proof -
  have tr: "tr = [EvReadFile (keypair cfg)]"
    using NewSolanaClient_Ok_trace [OF assms(1)] by simp
  have dep: "execute_deposit E cfg fl =
      post_and_handle E cfg client tr (deposit_url cfg)
        (DepositBody (mk_DepositRequest E client m a)) (deposit_envelopes E)"
    using assms
    by (simp add: execute_deposit_def required_flags_error_def deposit_RunE_def amount_of_def
        mintAddress_of_def)
  have wd: "withdraw_PreRunE (withdrawAll_of fl) a = None \<Longrightarrow>
      execute_withdraw E cfg fl =
      post_and_handle E cfg client tr (withdraw_url cfg)
        (WithdrawBody (mk_WithdrawRequest E client m a (withdrawAll_of fl))) (withdraw_envelopes E)"
    using assms
    by (simp add: execute_withdraw_def required_flags_error_def withdraw_RunE_def amount_of_def
        mintAddress_of_def)
  show ?thesis
  proof (intro conjI allI impI)
    fix resp
    assume "http_NewRequest E ''POST'' (deposit_url cfg) = None"
      and "http_Do E tr (post_request E cfg client (deposit_url cfg)
          (DepositBody (mk_DepositRequest E client m a))) = Inr resp"
    note st = post_and_handle_status [OF this]
    { assume other: "StatusCode resp \<noteq> 200"
      with st show "execute_deposit E cfg fl =
             (Fail (Err NetworkError (''unexpected status code: '' @ show_nat (StatusCode resp))),
              [EvReadFile (keypair cfg),
               EvHttpDo (post_request E cfg client (deposit_url cfg)
                 (DepositBody (mk_DepositRequest E client m a)))])"
        using dep tr by simp
      from other st show "\<not> list_ex touches_transaction (snd (execute_deposit E cfg fl))"
        using dep tr by simp }
    { fix msg assume "StatusCode resp = 200"
      with st show "fst (execute_deposit E cfg fl) \<noteq> Fail (Err NetworkError msg)"
        using dep by simp }
  next
    fix resp
    assume pre: "withdraw_PreRunE (withdrawAll_of fl) a = None"
      and "http_NewRequest E ''POST'' (withdraw_url cfg) = None"
      and "http_Do E tr (post_request E cfg client (withdraw_url cfg)
          (WithdrawBody (mk_WithdrawRequest E client m a (withdrawAll_of fl)))) = Inr resp"
    note st = post_and_handle_status [OF this(2,3)]
    { assume other: "StatusCode resp \<noteq> 200"
      with st show "execute_withdraw E cfg fl =
             (Fail (Err NetworkError (''unexpected status code: '' @ show_nat (StatusCode resp))),
              [EvReadFile (keypair cfg),
               EvHttpDo (post_request E cfg client (withdraw_url cfg)
                 (WithdrawBody (mk_WithdrawRequest E client m a (withdrawAll_of fl))))])"
        using wd [OF pre] tr by simp
      from other st show "\<not> list_ex touches_transaction (snd (execute_withdraw E cfg fl))"
        using wd [OF pre] tr by simp }
    { fix msg assume "StatusCode resp = 200"
      with st show "fst (execute_withdraw E cfg fl) \<noteq> Fail (Err NetworkError msg)"
        using wd [OF pre] by simp }
  qed
qed

lemmas command_defs = execute_deposit_def execute_withdraw_def execute_account_def
  deposit_envelopes_def withdraw_envelopes_def
  required_flags_error_def withdraw_PreRunE_def deposit_RunE_def withdraw_RunE_def account_RunE_def
  NewSolanaClient_def post_and_handle_def amount_of_def mintAddress_of_def withdrawAll_of_def
  mock_flags_def

text \<open>
  Claim C5 says that a 2xx status does not cause the status error.  The commands compare
  the status with 200 (\<^verbatim>\<open>http.StatusOK\<close>): an answer 201 is refused like a 500.
\<close>

theorem C5_counterexample_status_201:
  "fst (execute_deposit
          (mock_env\<lparr>http_Do := (\<lambda>tr req. Inr \<lparr>StatusCode = 201, RespBody = [0x7B]\<rparr>)\<rparr>)
          mock_config mock_flags) =
     Fail (Err NetworkError ''unexpected status code: 201'')"
  by (simp add: command_defs mock_defs show_nat.simps digit_char_def)

text \<open>Runs of C5: the API answers 500, and the API answers 200.\<close>

theorem C5_witness_status_500_and_200:
  "NewSolanaClient (mock_env\<lparr>http_Do := (\<lambda>tr req. Inr \<lparr>StatusCode = 500, RespBody = []\<rparr>)\<rparr>)
     mock_config [] = (Ok mock_client, [EvReadFile ''id.json'']) \<and>
   flag_amount mock_flags = Some (Finite False 5 (- 1)) \<and>
   flag_mint mock_flags = Some ''M'' \<and>
   execute_deposit (mock_env\<lparr>http_Do := (\<lambda>tr req. Inr \<lparr>StatusCode = 500, RespBody = []\<rparr>)\<rparr>)
     mock_config mock_flags =
     (Fail (Err NetworkError ''unexpected status code: 500''),
      [EvReadFile ''id.json'',
       EvHttpDo (post_request
         (mock_env\<lparr>http_Do := (\<lambda>tr req. Inr \<lparr>StatusCode = 500, RespBody = []\<rparr>)\<rparr>)
         mock_config mock_client (deposit_url mock_config)
         (DepositBody \<lparr>Owner = ''wallet'', MintAddress = ''M'', DepositAmount = ''2''\<rparr>))]) \<and>
   fst (execute_deposit mock_env mock_config mock_flags) = Ok ()"
proof -
  let ?E = "mock_env\<lparr>http_Do := (\<lambda>tr req. Inr \<lparr>StatusCode = 500, RespBody = []\<rparr>)\<rparr>"
  have cl: "NewSolanaClient ?E mock_config [] = (Ok mock_client, [EvReadFile ''id.json''])"
    by (simp add: NewSolanaClient_def mock_defs)
  have fl: "flag_amount mock_flags = Some (Finite False 5 (- 1))" "flag_mint mock_flags = Some ''M''"
    by (simp_all add: mock_flags_def)
  have new: "http_NewRequest ?E ''POST'' (deposit_url mock_config) = None"
    by (simp add: mock_env_def)
  have resp: "\<And>tr req. http_Do ?E tr req = Inr \<lparr>StatusCode = 500, RespBody = []\<rparr>"
    by simp
  have body: "mk_DepositRequest ?E mock_client ''M'' (Finite False 5 (- 1)) =
      \<lparr>Owner = ''wallet'', MintAddress = ''M'', DepositAmount = ''2''\<rparr>"
    by (simp add: mk_DepositRequest_def mock_env_def round_half_even_def show_nat.simps
        digit_char_def)
  have code: "show_nat 500 = ''500''"
    by (simp add: show_nat.simps digit_char_def)
  have kp: "keypair mock_config = ''id.json''"
    by (simp add: mock_config_def)
  have ok: "fst (execute_deposit mock_env mock_config mock_flags) = Ok ()"
    by (simp add: command_defs run_defs mock_defs)
  from C5_status_other_than_200_stops_the_command [OF cl fl] new resp
  have "execute_deposit ?E mock_config mock_flags =
     (Fail (Err NetworkError (''unexpected status code: '' @ show_nat 500)),
      [EvReadFile (keypair mock_config),
       EvHttpDo (post_request ?E mock_config mock_client (deposit_url mock_config)
         (DepositBody (mk_DepositRequest ?E mock_client ''M'' (Finite False 5 (- 1)))))])"
    by simp
  then show ?thesis
    using cl fl ok by (simp add: body code kp)
qed

section \<open>The API key\<close>

text \<open>
  For every world: deposit and withdraw send the key of the configuration, whatever it
  is, once the client and the request exist.
\<close>

lemma deposit_and_withdraw_send_the_configured_key:
  assumes "NewSolanaClient E cfg [] = (Ok client, tr)"
    and "flag_amount fl = Some a" and "flag_mint fl = Some m"
  shows "http_NewRequest E ''POST'' (deposit_url cfg) = None \<Longrightarrow>
         \<exists>req rest. snd (execute_deposit E cfg fl) = tr @ EvHttpDo req # rest \<and>
           map_of (ReqHeader req) ''X-Api-Key'' = Some (lulo_api_key cfg)"
    and "withdraw_PreRunE (withdrawAll_of fl) a = None \<Longrightarrow>
         http_NewRequest E ''POST'' (withdraw_url cfg) = None \<Longrightarrow>
         \<exists>req rest. snd (execute_withdraw E cfg fl) = tr @ EvHttpDo req # rest \<and>
           map_of (ReqHeader req) ''X-Api-Key'' = Some (lulo_api_key cfg)"
proof -
  assume new: "http_NewRequest E ''POST'' (deposit_url cfg) = None"
  have "execute_deposit E cfg fl =
      post_and_handle E cfg client tr (deposit_url cfg)
        (DepositBody (mk_DepositRequest E client m a)) (deposit_envelopes E)"
    using assms
    by (simp add: execute_deposit_def required_flags_error_def deposit_RunE_def amount_of_def
        mintAddress_of_def)
  then show "\<exists>req rest. snd (execute_deposit E cfg fl) = tr @ EvHttpDo req # rest \<and>
           map_of (ReqHeader req) ''X-Api-Key'' = Some (lulo_api_key cfg)"
    using post_and_handle_sends [OF new, of cfg client tr
        "DepositBody (mk_DepositRequest E client m a)" "deposit_envelopes E"]
      post_request_key by metis
next
  assume pre: "withdraw_PreRunE (withdrawAll_of fl) a = None"
    and new: "http_NewRequest E ''POST'' (withdraw_url cfg) = None"
  have "execute_withdraw E cfg fl =
      post_and_handle E cfg client tr (withdraw_url cfg)
        (WithdrawBody (mk_WithdrawRequest E client m a (withdrawAll_of fl))) (withdraw_envelopes E)"
    using assms pre
    by (simp add: execute_withdraw_def required_flags_error_def withdraw_RunE_def amount_of_def
        mintAddress_of_def)
  then show "\<exists>req rest. snd (execute_withdraw E cfg fl) = tr @ EvHttpDo req # rest \<and>
           map_of (ReqHeader req) ''X-Api-Key'' = Some (lulo_api_key cfg)"
    using post_and_handle_sends [OF new, of cfg client tr
        "WithdrawBody (mk_WithdrawRequest E client m a (withdrawAll_of fl))" "withdraw_envelopes E"]
      post_request_key by metis
qed

text \<open>The account command with an empty key stops before any network call.\<close>

lemma account_tests_the_key:
  "lulo_api_key cfg = '''' \<Longrightarrow> \<not> list_ex is_network (snd (execute_account E cfg)) \<and>
     (\<forall>client tr. NewSolanaClient E cfg [] = (Ok client, tr) \<longrightarrow>
        http_NewRequest E ''GET'' ''https://api.flexlend.fi/account'' = None \<longrightarrow>
        execute_account E cfg =
          (Fail (Err ConfigurationError ''FLEXLEND_API_KEY environment variable not set''), tr))"
proof -
  assume empty: "lulo_api_key cfg = ''''"
  have tr: "\<not> list_ex is_network (snd (NewSolanaClient E cfg []))"
    using NewSolanaClient_trace [of E cfg "[]"] by auto
  obtain r tr0 where n: "NewSolanaClient E cfg [] = (r, tr0)"
    by (cases "NewSolanaClient E cfg []")
  with tr have tr0: "\<not> list_ex is_network tr0" by simp
  have "\<not> list_ex is_network (snd (execute_account E cfg))"
    using n tr0 empty
    by (cases r) (simp_all add: execute_account_def account_RunE_def Let_def split: option.splits)
  moreover have "\<forall>client tr. NewSolanaClient E cfg [] = (Ok client, tr) \<longrightarrow>
        http_NewRequest E ''GET'' ''https://api.flexlend.fi/account'' = None \<longrightarrow>
        execute_account E cfg =
          (Fail (Err ConfigurationError ''FLEXLEND_API_KEY environment variable not set''), tr)"
    using empty by (simp add: execute_account_def account_RunE_def Let_def)
  ultimately show ?thesis by simp
qed

text \<open>
  Claim C2 asks every operation on the lending API to fail with a \<open>ConfigurationError\<close>
  before any network call when the API key is empty.  The account command does; the
  deposit and withdraw commands have no such test.  With an empty key in the test world,
  the account command stops after reading the keypair file, while deposit and withdraw
  send their request with an empty \<^verbatim>\<open>x-api-key\<close> header (stored as \<open>X-Api-Key\<close>) and go
  on to submit transactions.
\<close>

theorem C2_deposit_and_withdraw_send_an_empty_key:
  "execute_account mock_env (mock_config\<lparr>lulo_api_key := ''''\<rparr>) =
     (Fail (Err ConfigurationError ''FLEXLEND_API_KEY environment variable not set''),
      [EvReadFile ''id.json'']) \<and>
   fst (execute_deposit mock_env (mock_config\<lparr>lulo_api_key := ''''\<rparr>) mock_flags) = Ok () \<and>
   snd (execute_deposit mock_env (mock_config\<lparr>lulo_api_key := ''''\<rparr>) mock_flags) ! 1 =
     EvHttpDo \<lparr>Method = ''POST'',
       URL = ''https://api.flexlend.fi/generate/account/deposit?priorityFee=5000'',
       ReqHeader = [(''Accept'', ''application/json''), (''Content-Type'', ''application/json''),
                    (''X-Wallet-Pubkey'', ''wallet''), (''X-Api-Key'', '''')],
       ReqBody = DepositBody \<lparr>Owner = ''wallet'', MintAddress = ''M'', DepositAmount = ''2''\<rparr>\<rparr> \<and>
   fst (execute_withdraw mock_env (mock_config\<lparr>lulo_api_key := ''''\<rparr>) mock_flags) = Ok () \<and>
   snd (execute_withdraw mock_env (mock_config\<lparr>lulo_api_key := ''''\<rparr>) mock_flags) ! 1 =
     EvHttpDo \<lparr>Method = ''POST'',
       URL = ''https://api.flexlend.fi/generate/account/withdraw?priorityFee=5000'',
       ReqHeader = [(''Accept'', ''application/json''), (''Content-Type'', ''application/json''),
                    (''X-Wallet-Pubkey'', ''wallet''), (''X-Api-Key'', '''')],
       ReqBody = WithdrawBody \<lparr>WOwner = ''wallet'', WMintAddress = ''M'',
                                WithdrawAmount = ''2'', WithdrawAll = False\<rparr>\<rparr>"
  by (simp add: command_defs run_defs mock_defs post_request_def Header_Set_def canonical_keys
      deposit_url_def withdraw_url_def mk_DepositRequest_def mk_WithdrawRequest_def
      WalletPubKey_def round_half_even_def show_nat.simps digit_char_def)

section \<open>Loading the keypair\<close>

text \<open>
  Claim C3 says that \<^verbatim>\<open>NewSolanaClient\<close> fails with a \<open>ParseError\<close> when the decoded bytes
  are not a valid key.  The code converts the bytes to a private key and asks for the
  public key with no test in between.  For a keypair file that decodes to the three
  bytes \<open>1, 2, 3\<close>: if the SDK panics on such a key the call panics, and if the SDK returns
  something the call returns a client holding the three bytes as its private key.
  Neither is a \<open>ParseError\<close>.
\<close>

theorem C3_counterexample_short_key_is_no_ParseError:
  "os_ReadFile mock_env [] (keypair mock_config) = Inr [0x5B] \<and>
   json_Unmarshal (mock_env\<lparr>json_Unmarshal := (\<lambda>bs. Inr [1, 2, 3])\<rparr>) [0x5B] = Inr [1, 2, 3] \<and>
   fst (NewSolanaClient (mock_env\<lparr>json_Unmarshal := (\<lambda>bs. Inr [1, 2, 3])\<rparr>) mock_config []) =
     Panic \<and>
   fst (NewSolanaClient
          (mock_env\<lparr>json_Unmarshal := (\<lambda>bs. Inr [1, 2, 3]),
                     PrivateKey_PublicKey := (\<lambda>k. Some (drop 32 k))\<rparr>) mock_config []) =
     Ok \<lparr>RpcClient = ''https://rpc?api-key=k'', PublicKey = [], PrivateKey = [1, 2, 3]\<rparr>"
  by (simp add: NewSolanaClient_def mock_env_def mock_config_def)

text \<open>
  Claim C3, amended.  \<^verbatim>\<open>NewSolanaClient\<close> returns a \<open>ConfigurationError\<close> when no keypair
  path is configured, an \<open>IOError\<close> when the file cannot be read, and a \<open>ParseError\<close> when
  the JSON does not decode into a byte array; each time the result is the error alone
  (\<open>Fail\<close> carries no client).  Bytes that do decode are not validated: the result is then
  a panic of the SDK, a \<open>ConfigurationError\<close> for a missing RPC URL, or a client whose
  private key is those bytes.  So every error returned is of one of the three kinds, a
  \<open>ParseError\<close> only ever comes from the JSON decoding, and no network call is made.
\<close>

theorem C3_NewSolanaClient_failures:
  "(keypair cfg = '''' \<longrightarrow>
      NewSolanaClient E cfg tr =
        (Fail (Err ConfigurationError ''keypair path not set in config''), tr)) \<and>
   (keypair cfg \<noteq> '''' \<longrightarrow>
      (\<forall>e. os_ReadFile E tr (keypair cfg) = Inl e \<longrightarrow>
         NewSolanaClient E cfg tr =
           (Fail (Wrap ''failed to read keypair file'' (Err IOError e)),
            tr @ [EvReadFile (keypair cfg)])) \<and>
      (\<forall>bs. os_ReadFile E tr (keypair cfg) = Inr bs \<longrightarrow>
         (\<forall>e. json_Unmarshal E bs = Inl e \<longrightarrow>
            NewSolanaClient E cfg tr =
              (Fail (Wrap ''failed to parse keypair file'' (Err ParseError e)),
               tr @ [EvReadFile (keypair cfg)])) \<and>
         (\<forall>secretKey. json_Unmarshal E bs = Inr secretKey \<longrightarrow>
            NewSolanaClient E cfg tr =
              (case PrivateKey_PublicKey E secretKey of
                 None \<Rightarrow> Panic
               | Some publicKey \<Rightarrow>
                   if rpc_url cfg = ''''
                   then Fail (Err ConfigurationError ''RPC URL not set in config'')
                   else Ok \<lparr>RpcClient = rpc_url cfg @ ''?api-key='' @ rpc_api_key cfg,
                            PublicKey = publicKey, PrivateKey = secretKey\<rparr>,
               tr @ [EvReadFile (keypair cfg)])))) \<and>
   (\<forall>er. fst (NewSolanaClient E cfg tr) = Fail er \<longrightarrow>
      (error_kind er = ConfigurationError \<or> error_kind er = IOError \<or> error_kind er = ParseError) \<and>
      (error_kind er = ParseError \<longrightarrow>
         (\<exists>bs e. os_ReadFile E tr (keypair cfg) = Inr bs \<and> json_Unmarshal E bs = Inl e))) \<and>
   \<not> list_ex is_network (drop (length tr) (snd (NewSolanaClient E cfg tr)))"
proof (intro conjI)
  show "\<forall>er. fst (NewSolanaClient E cfg tr) = Fail er \<longrightarrow>
      (error_kind er = ConfigurationError \<or> error_kind er = IOError \<or> error_kind er = ParseError) \<and>
      (error_kind er = ParseError \<longrightarrow>
         (\<exists>bs e. os_ReadFile E tr (keypair cfg) = Inr bs \<and> json_Unmarshal E bs = Inl e))"
    by (auto simp add: NewSolanaClient_def Let_def split: if_splits sum.splits option.splits)
next
  show "\<not> list_ex is_network (drop (length tr) (snd (NewSolanaClient E cfg tr)))"
    using NewSolanaClient_trace [of E cfg tr] by auto
qed (simp_all add: NewSolanaClient_def Let_def split: option.splits)

text \<open>Runs of C3: no path, a missing file, a file that is not a JSON array, a good file.\<close>

theorem C3_witness_each_failure:
  "NewSolanaClient mock_env (mock_config\<lparr>keypair := ''''\<rparr>) [] =
     (Fail (Err ConfigurationError ''keypair path not set in config''), []) \<and>
   keypair (mock_config\<lparr>keypair := ''gone.json''\<rparr>) \<noteq> '''' \<and>
   os_ReadFile mock_env [] ''gone.json'' = Inl ''no such file'' \<and>
   NewSolanaClient mock_env (mock_config\<lparr>keypair := ''gone.json''\<rparr>) [] =
     (Fail (Wrap ''failed to read keypair file'' (Err IOError ''no such file'')),
      [EvReadFile ''gone.json'']) \<and>
   os_ReadFile (mock_env\<lparr>os_ReadFile := (\<lambda>tr path. Inr [0x7B])\<rparr>) [] ''id.json'' = Inr [0x7B] \<and>
   json_Unmarshal (mock_env\<lparr>os_ReadFile := (\<lambda>tr path. Inr [0x7B])\<rparr>) [0x7B] =
     Inl ''invalid character'' \<and>
   NewSolanaClient (mock_env\<lparr>os_ReadFile := (\<lambda>tr path. Inr [0x7B])\<rparr>) mock_config [] =
     (Fail (Wrap ''failed to parse keypair file'' (Err ParseError ''invalid character'')),
      [EvReadFile ''id.json'']) \<and>
   NewSolanaClient mock_env mock_config [] = (Ok mock_client, [EvReadFile ''id.json''])"
proof -
  let ?E = "mock_env\<lparr>os_ReadFile := (\<lambda>tr path. Inr [0x7B])\<rparr>"
  have a: "keypair (mock_config\<lparr>keypair := ''''\<rparr>) = ''''" by simp
  have b: "keypair (mock_config\<lparr>keypair := ''gone.json''\<rparr>) \<noteq> ''''"
    "keypair (mock_config\<lparr>keypair := ''gone.json''\<rparr>) = ''gone.json''"
    "os_ReadFile mock_env [] ''gone.json'' = Inl ''no such file''"
    by (simp_all add: mock_env_def)
  have c: "keypair mock_config \<noteq> ''''" "keypair mock_config = ''id.json''"
    "os_ReadFile ?E [] ''id.json'' = Inr [0x7B]"
    "json_Unmarshal ?E [0x7B] = Inl ''invalid character''"
    by (simp_all add: mock_env_def mock_config_def)
  have d: "os_ReadFile mock_env [] ''id.json'' = Inr [0x5B]"
    "json_Unmarshal mock_env [0x5B] = Inr mock_secret"
    "PrivateKey_PublicKey mock_env mock_secret = Some mock_wallet"
    "rpc_url mock_config = ''https://rpc''" "rpc_api_key mock_config = ''k''"
    by (simp_all add: mock_env_def mock_config_def mock_secret_def mock_wallet_def)
  show ?thesis
    using a b c d
      C3_NewSolanaClient_failures [of "mock_config\<lparr>keypair := ''''\<rparr>" mock_env "[]"]
      C3_NewSolanaClient_failures [of "mock_config\<lparr>keypair := ''gone.json''\<rparr>" mock_env "[]"]
      C3_NewSolanaClient_failures [of mock_config ?E "[]"]
      C3_NewSolanaClient_failures [of mock_config mock_env "[]"]
    by (simp add: mock_client_def)
qed

section \<open>The amount string\<close>

text \<open>The decimal rendering of a number is a non-empty string of digits.\<close>

lemma digit_char_is_digit: "is_digit (digit_char d)"
proof -
  have "d mod 10 < length ''0123456789''" by simp
  then have "''0123456789'' ! (d mod 10) \<in> set ''0123456789''"
    by (rule nth_mem)
  then show ?thesis by (simp add: digit_char_def is_digit_def)
qed

lemma show_nat_digits: "show_nat n \<noteq> [] \<and> list_all is_digit (show_nat n)"
proof (induction n rule: show_nat.induct)
  case (1 n)
  show ?case
  proof (cases "n < 10")
    case True
    then show ?thesis by (simp add: show_nat.simps [of n] digit_char_is_digit)
  next
    case False
    with "1" show ?thesis by (simp add: show_nat.simps [of n] digit_char_is_digit)
  qed
qed

lemma digit_not_point: "is_digit ch \<Longrightarrow> ch \<noteq> CHR ''.''"
  by (auto simp add: is_digit_def)

lemma show_nat_no_point: "CHR ''.'' \<notin> set (show_nat n)"
  using show_nat_digits [of n] digit_not_point by (auto simp add: list_all_iff)

lemma Sprintf_f0_no_point: "CHR ''.'' \<notin> set (Sprintf_f0 a)"
  by (cases a) (simp_all add: show_nat_no_point)

lemma Sprintf_f0_integer: "is_finite a \<Longrightarrow> is_integer_string (Sprintf_f0 a)"
proof (cases a)
  case (Finite s m e)
  obtain ch cs where sn: "show_nat (round_half_even m e) = ch # cs"
    using show_nat_digits [of "round_half_even m e"] by (cases "show_nat (round_half_even m e)") auto
  have all: "list_all is_digit (ch # cs)"
    using show_nat_digits [of "round_half_even m e"] sn by simp
  then have "ch \<noteq> CHR ''-''" by (auto simp add: is_digit_def)
  then show ?thesis using Finite sn all by simp
qed simp_all

text \<open>
  Claim C8 says that the amount sent is always an integer string.  The flag is a
  \<^verbatim>\<open>float64\<close>, its parser accepts \<^verbatim>\<open>NaN\<close>, and \<^verbatim>\<open>%.0f\<close> renders that as \<open>NaN\<close>.
\<close>

theorem C8_counterexample_NaN_amount:
  "DepositAmount (mk_DepositRequest mock_env mock_client ''M'' NaN) = ''NaN'' \<and>
   \<not> is_integer_string (DepositAmount (mk_DepositRequest mock_env mock_client ''M'' NaN))"
  by (simp add: mk_DepositRequest_def is_digit_def)

text \<open>
  Claim C8, amended.  The amount of a deposit and of a withdraw request is the \<^verbatim>\<open>%.0f\<close>
  rendering of the \<^verbatim>\<open>float64\<close> amount.  For every amount that string has no decimal
  point.  For every finite amount it is an integer string: an optional minus sign and
  the digits of the nearest integer.  The amounts that are not finite are rendered
  \<open>NaN\<close>, \<open>+Inf\<close> and \<open>-Inf\<close>.
\<close>

theorem C8_amount_string_has_no_decimal_point:
  "DepositAmount (mk_DepositRequest E c mint a) = Sprintf_f0 a \<and>
   WithdrawAmount (mk_WithdrawRequest E c mint a wall) = Sprintf_f0 a \<and>
   CHR ''.'' \<notin> set (Sprintf_f0 a) \<and>
   (is_finite a \<longrightarrow> is_integer_string (Sprintf_f0 a)) \<and>
   Sprintf_f0 NaN = ''NaN'' \<and> Sprintf_f0 (Inf False) = ''+Inf'' \<and> Sprintf_f0 (Inf True) = ''-Inf''"
  by (simp add: mk_DepositRequest_def mk_WithdrawRequest_def Sprintf_f0_no_point Sprintf_f0_integer)

text \<open>Renderings for C8: 2.5 is sent as 2, -1.75 as -2, 2468 as 2468.\<close>

theorem C8_witness_amounts:
  "is_finite (Finite False 5 (- 1)) \<and>
   Sprintf_f0 (Finite False 5 (- 1)) = ''2'' \<and>
   is_integer_string ''2'' \<and>
   is_finite (Finite True 7 (- 2)) \<and>
   Sprintf_f0 (Finite True 7 (- 2)) = ''-2'' \<and>
   is_integer_string ''-2'' \<and>
   Sprintf_f0 (Finite False 1234 1) = ''2468'' \<and>
   CHR ''.'' \<notin> set ''2468''"
proof -
  have r: "show_nat (round_half_even 5 (- 1)) = ''2''" "show_nat (round_half_even 7 (- 2)) = ''2''"
    "show_nat (round_half_even 1234 1) = ''2468''"
    by (simp_all add: round_half_even_def show_nat.simps digit_char_def)
  show ?thesis
    using C8_amount_string_has_no_decimal_point [of mock_env mock_client "''M''" "Finite False 5 (- 1)" False]
      C8_amount_string_has_no_decimal_point [of mock_env mock_client "''M''" "Finite True 7 (- 2)" False]
      C8_amount_string_has_no_decimal_point [of mock_env mock_client "''M''" "Finite False 1234 1" False]
    by (simp add: r is_digit_def)
qed

end
